theory Spec2Isabelle
  imports Main
begin

section \<open>Strings and byte buffers\<close>

text \<open>
  A JavaScript string is represented by the sequence of bytes of its UTF-8 encoding, so
  \<open>Buffer.from(str)\<close> and \<open>hash.update(str)\<close> see exactly the \<^typ>\<open>string\<close> of the
  model. A \<open>Buffer\<close> is a \<^typ>\<open>string\<close> as well: a list of 8-bit characters.
\<close>

text \<open>\<open>String.prototype.replace(/c/g, r)\<close> for a one-character pattern.\<close>

definition replace_all :: "char \<Rightarrow> string \<Rightarrow> string \<Rightarrow> string" where
  "replace_all c r s = concat (map (\<lambda>x. if x = c then r else [x]) s)"

text \<open>\<open>Array.prototype.join(sep)\<close> on an array of strings.\<close>

fun join :: "string \<Rightarrow> string list \<Rightarrow> string" where
  "join sep [] = []"
| "join sep [x] = x"
| "join sep (x # y # ys) = x @ sep @ join sep (y # ys)"

subsection \<open>Buffer encodings: hex, base64, base64url\<close>

definition hex_digit :: "nat \<Rightarrow> char" where
  "hex_digit n = ''0123456789abcdef'' ! n"

definition hex :: "string \<Rightarrow> string" where
  "hex bs = concat (map (\<lambda>b. [hex_digit (of_char b div 16), hex_digit (of_char b mod 16)]) bs)"

definition b64_alphabet :: string where
  "b64_alphabet = ''ABCDEFGHIJKLMNOPQRSTUVWXYZabcdefghijklmnopqrstuvwxyz0123456789+/''"

definition b64url_alphabet :: string where
  "b64url_alphabet = ''ABCDEFGHIJKLMNOPQRSTUVWXYZabcdefghijklmnopqrstuvwxyz0123456789-_''"

text \<open>The 6-bit groups of a buffer; the last group of a partial block is zero-filled.\<close>

fun sextets :: "string \<Rightarrow> nat list" where
  "sextets (a # b # c # rest) =
     [of_char a div 4,
      (of_char a mod 4) * 16 + of_char b div 16,
      (of_char b mod 16) * 4 + of_char c div 64,
      of_char c mod 64] @ sextets rest"
| "sextets [a, b] =
     [of_char a div 4,
      (of_char a mod 4) * 16 + of_char b div 16,
      (of_char b mod 16) * 4]"
| "sextets [a] = [of_char a div 4, (of_char a mod 4) * 16]"
| "sextets [] = []"

text \<open>\<open>buf.toString('base64')\<close>: standard alphabet, padded with \<open>=\<close> to a multiple of four.\<close>

definition base64 :: "string \<Rightarrow> string" where
  "base64 bs =
     map (\<lambda>i. b64_alphabet ! i) (sextets bs) @ replicate ((3 - length bs mod 3) mod 3) CHR ''=''"

text \<open>\<open>buf.toString('base64url')\<close>: URL-safe alphabet, no padding.\<close>

definition base64url :: "string \<Rightarrow> string" where
  "base64url bs = map (\<lambda>i. b64url_alphabet ! i) (sextets bs)"

section \<open>utils\<close>

text \<open>
  \<open>crypto.createHash('sha256').update(s).digest()\<close> is a library function; the
  definitions that hash take it as the parameter \<open>sha256\<close>, from the bytes of the input to
  the bytes of the digest.
\<close>

definition generateCodeChallenge :: "(string \<Rightarrow> string) \<Rightarrow> string \<Rightarrow> string" where
  "generateCodeChallenge sha256 verifier =
     replace_all CHR ''='' ''''
       (replace_all CHR ''/'' ''_''
         (replace_all CHR ''+'' ''-'' (base64 (sha256 verifier))))"

definition base64URLEncode :: "string \<Rightarrow> string" where
  "base64URLEncode str =
     replace_all CHR ''='' ''''
       (replace_all CHR ''/'' ''_''
         (replace_all CHR ''+'' ''-'' (base64 str)))"

subsection \<open>Random values\<close>

text \<open>
  \<open>crypto.randomBytes(n)\<close> reads the next \<open>n\<close> bytes of the system's entropy. The
  world of the model carries the entropy as an infinite supply and counts the bytes
  consumed; it also carries the heap of the caller's objects and the HTTP requests issued.
\<close>

type_synonym ref = nat

datatype Environment = production | staging

record GovBRConfig =
  clientId :: "string option"
  clientSecret :: "string option"
  redirectUri :: "string option"
  environment :: "Environment option"
  scopes :: "ref option"

datatype http_method = GET | POST

record http_request =
  req_method :: http_method
  req_url :: string
  req_params :: "(string \<times> string) list"
  req_headers :: "(string \<times> string) list"
  req_data :: "string option"
  req_timeout :: nat

record world =
  arrays :: "ref \<Rightarrow> string list"
  next_ref :: ref
  configs :: "ref \<Rightarrow> GovBRConfig"
  entropy :: "nat \<Rightarrow> char"
  consumed :: nat
  requests :: "http_request list"

definition randomBytes :: "nat \<Rightarrow> world \<Rightarrow> string \<times> world" where
  "randomBytes n w =
     (map (entropy w) [consumed w ..< consumed w + n], w\<lparr>consumed := consumed w + n\<rparr>)"

definition generateNonce :: "world \<Rightarrow> string \<times> world" where
  "generateNonce w = (let (bs, w') = randomBytes 16 w in (hex bs, w'))"

definition generateState :: "world \<Rightarrow> string \<times> world" where
  "generateState w = (let (bs, w') = randomBytes 16 w in (hex bs, w'))"

definition generateCodeVerifier :: "world \<Rightarrow> string \<times> world" where
  "generateCodeVerifier w = (let (bs, w') = randomBytes 32 w in (base64url bs, w'))"

section \<open>URLSearchParams\<close>

text \<open>
  \<open>URLSearchParams.prototype.toString()\<close> is the application/x-www-form-urlencoded
  serializer: the entries in insertion order, joined by \<open>&\<close>, name and value
  percent-encoded byte by byte, a space written as \<open>+\<close>.
\<close>

definition is_alnum :: "char \<Rightarrow> bool" where
  "is_alnum c =
     (let n = (of_char c :: nat)
      in (48 \<le> n \<and> n \<le> 57) \<or> (65 \<le> n \<and> n \<le> 90) \<or> (97 \<le> n \<and> n \<le> 122))"

definition HEX_digit :: "nat \<Rightarrow> char" where
  "HEX_digit n = ''0123456789ABCDEF'' ! n"

definition urlencode_byte :: "char \<Rightarrow> string" where
  "urlencode_byte c =
     (if is_alnum c \<or> c \<in> set ''*-._'' then [c]
      else if c = CHR '' '' then ''+''
      else [CHR ''%'', HEX_digit (of_char c div 16), HEX_digit (of_char c mod 16)])"

definition urlencode :: "string \<Rightarrow> string" where
  "urlencode s = concat (map urlencode_byte s)"

definition URLSearchParams_toString :: "(string \<times> string) list \<Rightarrow> string" where
  "URLSearchParams_toString entries =
     join ''&'' (map (\<lambda>(k, v). urlencode k @ ''='' @ urlencode v) entries)"

section \<open>config\<close>

record Endpoints =
  authorize :: string
  token :: string
  userinfo :: string
  logout :: string
  confiabilidades :: string

fun ENDPOINTS :: "Environment \<Rightarrow> Endpoints" where
  "ENDPOINTS staging =
     \<lparr>authorize = ''https://sso.staging.acesso.gov.br/authorize'',
      token = ''https://sso.staging.acesso.gov.br/token'',
      userinfo = ''https://sso.staging.acesso.gov.br/userinfo'',
      logout = ''https://sso.staging.acesso.gov.br/logout'',
      confiabilidades = ''https://api.staging.acesso.gov.br/confiabilidades/v3''\<rparr>"
| "ENDPOINTS production =
     \<lparr>authorize = ''https://sso.acesso.gov.br/authorize'',
      token = ''https://sso.acesso.gov.br/token'',
      userinfo = ''https://sso.acesso.gov.br/userinfo'',
      logout = ''https://sso.acesso.gov.br/logout'',
      confiabilidades = ''https://api.acesso.gov.br/confiabilidades/v3''\<rparr>"

definition DEFAULT_SCOPES :: "string list" where
  "DEFAULT_SCOPES = [''openid'', ''email'', ''profile'', ''govbr_confiabilidades'']"

section \<open>errors\<close>

text \<open>
  The exceptions of the program: a plain \<open>Error(message)\<close>, the HTTP library's
  \<open>AxiosError\<close> with its message and \<open>response?.status\<close>, and the library's own
  \<open>GovBRAuthError(message, code, statusCode?, originalError?)\<close>.
\<close>

datatype js_error =
    Error string
  | AxiosError string "nat option"
  | GovBRAuthError string string "nat option" "js_error option"

fun isAxiosError :: "js_error \<Rightarrow> bool" where
  "isAxiosError (AxiosError m st) = True"
| "isAxiosError e = False"

fun message :: "js_error \<Rightarrow> string" where
  "message (Error m) = m"
| "message (AxiosError m st) = m"
| "message (GovBRAuthError m c st orig) = m"

fun response_status :: "js_error \<Rightarrow> nat option" where
  "response_status (AxiosError m st) = st"
| "response_status e = None"

section \<open>The HTTP client\<close>

text \<open>
  The network is the parameter \<open>transport\<close> of every operation that sends a request: what
  comes back for a request is a response with its status, a network failure, or an
  exception raised while the request was processed.
\<close>

datatype 'd http_outcome = Response nat 'd | NetworkError string | Exception js_error

record 'd AxiosResponse =
  resp_status :: nat
  resp_data :: 'd

record AxiosInstance =
  defaults_timeout :: nat
  defaults_headers :: "(string \<times> string) list"
  response_rejected :: "(js_error \<Rightarrow> js_error) list"

definition axios_create :: "nat \<Rightarrow> (string \<times> string) list \<Rightarrow> AxiosInstance" where
  "axios_create t hs = \<lparr>defaults_timeout = t, defaults_headers = hs, response_rejected = []\<rparr>"

fun digits :: "nat \<Rightarrow> string" where
  "digits n = (if n < 10 then [char_of (48 + n)] else digits (n div 10) @ [char_of (48 + n mod 10)])"

definition validateStatus :: "nat \<Rightarrow> bool" where
  "validateStatus s = (200 \<le> s \<and> s < 300)"

text \<open>The library settles the promise of a request: a status outside 2xx is a rejection.\<close>

fun settle :: "'d http_outcome \<Rightarrow> js_error + 'd AxiosResponse" where
  "settle (Response s d) =
     (if validateStatus s then Inr \<lparr>resp_status = s, resp_data = d\<rparr>
      else Inl (AxiosError (''Request failed with status code '' @ digits s) (Some s)))"
| "settle (NetworkError m) = Inl (AxiosError m None)"
| "settle (Exception e) = Inl e"

text \<open>Headers given with a request override the instance's defaults of the same name.\<close>

definition merge_headers ::
    "(string \<times> string) list \<Rightarrow> (string \<times> string) list \<Rightarrow> (string \<times> string) list" where
  "merge_headers defaults hs = filter (\<lambda>(k, v). k \<notin> fst ` set hs) defaults @ hs"

text \<open>
  One request through the instance: the request is recorded in the world, the outcome is
  settled, and a rejection runs through the rejection handlers of the response
  interceptors, each of which throws; a response passes the handler
  \<open>(response) => response\<close> unchanged.
\<close>

definition axios_request ::
    "AxiosInstance \<Rightarrow> (http_request \<Rightarrow> 'd http_outcome) \<Rightarrow> http_request \<Rightarrow> world
      \<Rightarrow> (js_error + 'd AxiosResponse) \<times> world" where
  "axios_request inst transport req w =
     (let req' = req\<lparr>req_headers := merge_headers (defaults_headers inst) (req_headers req),
                     req_timeout := defaults_timeout inst\<rparr>;
          w' = w\<lparr>requests := requests w @ [req']\<rparr>
      in case settle (transport req') of
           Inr resp \<Rightarrow> (Inr resp, w')
         | Inl e \<Rightarrow> (Inl (fold (\<lambda>h x. h x) (response_rejected inst) e), w'))"

definition axios_get ::
    "AxiosInstance \<Rightarrow> (http_request \<Rightarrow> 'd http_outcome) \<Rightarrow> string \<Rightarrow> (string \<times> string) list
      \<Rightarrow> (string \<times> string) list \<Rightarrow> world \<Rightarrow> (js_error + 'd AxiosResponse) \<times> world" where
  "axios_get inst transport u ps hs w =
     axios_request inst transport
       \<lparr>req_method = GET, req_url = u, req_params = ps, req_headers = hs,
        req_data = None, req_timeout = 0\<rparr> w"

definition axios_post ::
    "AxiosInstance \<Rightarrow> (http_request \<Rightarrow> 'd http_outcome) \<Rightarrow> string \<Rightarrow> string
      \<Rightarrow> (string \<times> string) list \<Rightarrow> world \<Rightarrow> (js_error + 'd AxiosResponse) \<times> world" where
  "axios_post inst transport u body hs w =
     axios_request inst transport
       \<lparr>req_method = POST, req_url = u, req_params = [], req_headers = hs,
        req_data = Some body, req_timeout = 0\<rparr> w"

section \<open>AuthService\<close>

text \<open>
  JavaScript truthiness of an optional string: \<open>undefined\<close> and the empty string are
  falsy. \<open>a || b\<close> is \<open>b\<close> exactly when \<open>a\<close> is falsy.
\<close>

fun falsy :: "string option \<Rightarrow> bool" where
  "falsy None = True"
| "falsy (Some s) = (s = [])"

fun or_default :: "string option \<Rightarrow> string \<Rightarrow> string" where
  "or_default None d = d"
| "or_default (Some s) d = (if s = [] then d else s)"

fun or_generate :: "string option \<Rightarrow> (world \<Rightarrow> string \<times> world) \<Rightarrow> world \<Rightarrow> string \<times> world" where
  "or_generate None g w = g w"
| "or_generate (Some s) g w = (if s = [] then g w else (s, w))"

text \<open>
  \<open>Required<GovBRConfig>\<close>, the type of \<open>this.config\<close>: every field present. The
  scopes are a reference to an array of the heap, as in the program.
\<close>

record Required_GovBRConfig =
  config_clientId :: string
  config_clientSecret :: string
  config_redirectUri :: string
  config_environment :: Environment
  config_scopes :: ref

record AuthorizeParams =
  responseType :: "string option"
  nonce :: "string option"
  state :: "string option"
  codeChallenge :: "string option"
  codeChallengeMethod :: "string option"

record AuthService =
  config :: Required_GovBRConfig
  endpoints :: Endpoints
  client :: AxiosInstance

text \<open>An array literal allocates a fresh array.\<close>

definition new_array :: "string list \<Rightarrow> world \<Rightarrow> ref \<times> world" where
  "new_array xs w =
     (next_ref w, w\<lparr>arrays := (arrays w)(next_ref w := xs), next_ref := Suc (next_ref w)\<rparr>)"

text \<open>The rejection handler that \<open>setupAxiosInterceptors\<close> registers; it always throws.\<close>

definition onRejected :: "js_error \<Rightarrow> js_error" where
  "onRejected error =
     (if isAxiosError error
      then GovBRAuthError (message error) ''API_ERROR'' (response_status error) (Some error)
      else error)"

definition setupAxiosInterceptors :: "AxiosInstance \<Rightarrow> AxiosInstance" where
  "setupAxiosInterceptors inst =
     inst\<lparr>response_rejected := response_rejected inst @ [onRejected]\<rparr>"

text \<open>
  The constructor, called with a reference \<open>c\<close> to the caller's configuration object. The
  spread \<open>{...config, ...}\<close> copies the fields; \<open>config.scopes || [...DEFAULT_SCOPES]\<close>
  keeps the reference to the caller's array when there is one (an array, even an empty
  one, is truthy) and allocates a copy of the defaults otherwise. Where the service is
  built the three required fields are present and not empty, so \<open>or_default f []\<close> is
  the value of the field \<open>f\<close>.
\<close>

definition AuthService_new :: "ref \<Rightarrow> world \<Rightarrow> (js_error + AuthService) \<times> world" where
  "AuthService_new c w =
     (let cfg = configs w c in
      if falsy (clientId cfg) \<or> falsy (clientSecret cfg) \<or> falsy (redirectUri cfg)
      then (Inl (Error ''Missing required configuration parameters''), w)
      else
        let env = (case environment cfg of None \<Rightarrow> production | Some e \<Rightarrow> e);
            (sc, w') = (case scopes cfg of None \<Rightarrow> new_array DEFAULT_SCOPES w | Some r \<Rightarrow> (r, w));
            conf = \<lparr>config_clientId = or_default (clientId cfg) [],
                    config_clientSecret = or_default (clientSecret cfg) [],
                    config_redirectUri = or_default (redirectUri cfg) [],
                    config_environment = env,
                    config_scopes = sc\<rparr>
        in (Inr \<lparr>config = conf,
                 endpoints = ENDPOINTS (config_environment conf),
                 client = setupAxiosInterceptors
                            (axios_create 10000 [(''Content-Type'', ''application/json'')])\<rparr>,
            w'))"

text \<open>The object literal that \<open>generateAuthorizationUrl\<close> passes to \<open>URLSearchParams\<close>.\<close>

definition authorizationQueryParams ::
    "(string \<Rightarrow> string) \<Rightarrow> AuthService \<Rightarrow> AuthorizeParams \<Rightarrow> world
      \<Rightarrow> (string \<times> string) list \<times> world" where
  "authorizationQueryParams sha256 this params w =
     (let (codeVerifier, w1) = generateCodeVerifier w;
          challenge = generateCodeChallenge sha256 codeVerifier;
          (nonce', w2) = or_generate (nonce params) generateNonce w1;
          (state', w3) = or_generate (state params) generateState w2
      in ([(''response_type'', or_default (responseType params) ''code''),
           (''client_id'', config_clientId (config this)),
           (''scope'', join '' '' (arrays w (config_scopes (config this)))),
           (''redirect_uri'', config_redirectUri (config this)),
           (''nonce'', nonce'),
           (''state'', state'),
           (''code_challenge'', or_default (codeChallenge params) challenge),
           (''code_challenge_method'', or_default (codeChallengeMethod params) ''S256'')],
          w3))"

definition generateAuthorizationUrl ::
    "(string \<Rightarrow> string) \<Rightarrow> AuthService \<Rightarrow> AuthorizeParams \<Rightarrow> world \<Rightarrow> string \<times> world" where
  "generateAuthorizationUrl sha256 this params w =
     (let (queryParams, w') = authorizationQueryParams sha256 this params w
      in (authorize (endpoints this) @ ''?'' @ URLSearchParams_toString queryParams, w'))"

text \<open>\<open>await\<close> of a rejected promise throws its error; otherwise \<open>response.data\<close> is returned.\<close>

fun response_data :: "js_error + 'd AxiosResponse \<Rightarrow> js_error + 'd" where
  "response_data (Inl e) = Inl e"
| "response_data (Inr response) = Inr (resp_data response)"

definition getTokens ::
    "(http_request \<Rightarrow> 'd http_outcome) \<Rightarrow> AuthService \<Rightarrow> string \<Rightarrow> string \<Rightarrow> world
      \<Rightarrow> (js_error + 'd) \<times> world" where
  "getTokens transport this code codeVerifier w =
     (let basicAuth = base64URLEncode
            (config_clientId (config this) @ '':'' @ config_clientSecret (config this));
          (response, w') = axios_post (client this) transport (token (endpoints this))
            (URLSearchParams_toString
               [(''grant_type'', ''authorization_code''),
                (''code'', code),
                (''redirect_uri'', config_redirectUri (config this)),
                (''code_verifier'', codeVerifier)])
            [(''Content-Type'', ''application/x-www-form-urlencoded''),
             (''Authorization'', ''Basic '' @ basicAuth)] w
      in (response_data response, w'))"

definition getUserInfo ::
    "(http_request \<Rightarrow> 'd http_outcome) \<Rightarrow> AuthService \<Rightarrow> string \<Rightarrow> world
      \<Rightarrow> (js_error + 'd) \<times> world" where
  "getUserInfo transport this accessToken w =
     (let (response, w') = axios_get (client this) transport (userinfo (endpoints this)) []
            [(''Authorization'', ''Bearer '' @ accessToken)] w
      in (response_data response, w'))"

definition getConfiabilidadeNiveis ::
    "(http_request \<Rightarrow> 'd http_outcome) \<Rightarrow> AuthService \<Rightarrow> string \<Rightarrow> string \<Rightarrow> world
      \<Rightarrow> (js_error + 'd) \<times> world" where
  "getConfiabilidadeNiveis transport this accessToken cpf w =
     (let (response, w') = axios_get (client this) transport
            (confiabilidades (endpoints this) @ ''/contas/'' @ cpf @ ''/niveis'')
            [(''response-type'', ''ids'')]
            [(''Authorization'', ''Bearer '' @ accessToken)] w
      in (response_data response, w'))"

definition getConfiabilidadeSelos ::
    "(http_request \<Rightarrow> 'd http_outcome) \<Rightarrow> AuthService \<Rightarrow> string \<Rightarrow> string \<Rightarrow> world
      \<Rightarrow> (js_error + 'd) \<times> world" where
  "getConfiabilidadeSelos transport this accessToken cpf w =
     (let (response, w') = axios_get (client this) transport
            (confiabilidades (endpoints this) @ ''/contas/'' @ cpf @ ''/confiabilidades'')
            [(''response-type'', ''ids'')]
            [(''Authorization'', ''Bearer '' @ accessToken)] w
      in (response_data response, w'))"

definition generateLogoutUrl :: "AuthService \<Rightarrow> string \<Rightarrow> string" where
  "generateLogoutUrl this postLogoutRedirectUri =
     logout (endpoints this) @ ''?'' @
       URLSearchParams_toString [(''post_logout_redirect_uri'', postLogoutRedirectUri)]"

section \<open>Reference decoders\<close>

text \<open>
  What a receiver does with the strings the service produces: the base64 decoder of
  RFC 4648 (strict: padded to a multiple of four, standard alphabet), the reversal of the
  URL-safe mapping, and the application/x-www-form-urlencoded parser. They are the
  yardstick of the properties below, not part of the service.
\<close>

definition b64_index :: "char \<Rightarrow> nat option" where
  "b64_index c = map_of (zip b64_alphabet [0..<64]) c"

fun unsextets :: "nat list \<Rightarrow> string" where
  "unsextets (i0 # i1 # i2 # i3 # rest) =
     [char_of (i0 * 4 + i1 div 16),
      char_of ((i1 mod 16) * 16 + i2 div 4),
      char_of ((i2 mod 4) * 64 + i3)] @ unsextets rest"
| "unsextets [i0, i1, i2] =
     [char_of (i0 * 4 + i1 div 16), char_of ((i1 mod 16) * 16 + i2 div 4)]"
| "unsextets [i0, i1] = [char_of (i0 * 4 + i1 div 16)]"
| "unsextets [i0] = []"
| "unsextets [] = []"

definition base64_decode :: "string \<Rightarrow> string option" where
  "base64_decode s =
     (let body = takeWhile (\<lambda>c. c \<noteq> CHR ''='') s;
          pad = dropWhile (\<lambda>c. c \<noteq> CHR ''='') s
      in if length s mod 4 = 0 \<and> length pad \<le> 2 \<and> pad = replicate (length pad) CHR ''=''
         then map_option unsextets (those (map b64_index body))
         else None)"

text \<open>Reversing the URL-safe mapping: \<open>-\<close> to \<open>+\<close>, \<open>_\<close> to \<open>/\<close>, padding restored.\<close>

definition base64url_to_base64 :: "string \<Rightarrow> string" where
  "base64url_to_base64 v =
     (let s = replace_all CHR ''_'' ''/'' (replace_all CHR ''-'' ''+'' v)
      in s @ replicate ((4 - length s mod 4) mod 4) CHR ''='')"

definition is_HEX :: "char \<Rightarrow> bool" where
  "is_HEX c = (c \<in> set ''0123456789ABCDEF'')"

definition unHEX :: "char \<Rightarrow> nat" where
  "unHEX c = (if of_char c < (65::nat) then of_char c - 48 else of_char c - 55)"

fun urldecode :: "string \<Rightarrow> string" where
  "urldecode [] = []"
| "urldecode (c # cs) =
     (if c = CHR ''+'' then CHR '' '' # urldecode cs
      else if c = CHR ''%'' then
        (case cs of
           h # l # rest \<Rightarrow>
             if is_HEX h \<and> is_HEX l then char_of (unHEX h * 16 + unHEX l) # urldecode rest
             else c # urldecode cs
         | _ \<Rightarrow> c # urldecode cs)
      else c # urldecode cs)"

fun split_on :: "char \<Rightarrow> string \<Rightarrow> string list" where
  "split_on sep [] = [[]]"
| "split_on sep (c # cs) =
     (if c = sep then [] # split_on sep cs
      else (case split_on sep cs of [] \<Rightarrow> [[c]] | x # xs \<Rightarrow> (c # x) # xs))"

definition parse_entry :: "string \<Rightarrow> string \<times> string" where
  "parse_entry e =
     (urldecode (takeWhile (\<lambda>c. c \<noteq> CHR ''='') e),
      urldecode (drop 1 (dropWhile (\<lambda>c. c \<noteq> CHR ''='') e)))"

definition parse_query :: "string \<Rightarrow> (string \<times> string) list" where
  "parse_query q = map parse_entry (filter (\<lambda>e. e \<noteq> []) (split_on CHR ''&'' q))"

text \<open>
  The section 4.5 of the design, in its words: what a caller of a network operation gets
  for each outcome of the request. A response with a 2xx status gives its data; a
  transport failure gives the structured error with the message, the tag
  \<open>API_ERROR\<close>, the status when there is one, and the original error; any other
  exception is passed on as it is.
\<close>

fun normalized :: "'d http_outcome \<Rightarrow> js_error + 'd" where
  "normalized (Response s d) =
     (if 200 \<le> s \<and> s < 300 then Inr d
      else Inl (GovBRAuthError (''Request failed with status code '' @ digits s) ''API_ERROR''
                  (Some s)
                  (Some (AxiosError (''Request failed with status code '' @ digits s) (Some s)))))"
| "normalized (NetworkError m) =
     Inl (GovBRAuthError m ''API_ERROR'' None (Some (AxiosError m None)))"
| "normalized (Exception (AxiosError m st)) =
     Inl (GovBRAuthError m ''API_ERROR'' st (Some (AxiosError m st)))"
| "normalized (Exception e) = Inl e"

section \<open>The caller's side of the heap\<close>

text \<open>What the code that owns a configuration object can do to it after construction.\<close>

definition array_push :: "ref \<Rightarrow> string \<Rightarrow> world \<Rightarrow> world" where
  "array_push r x w = w\<lparr>arrays := (arrays w)(r := arrays w r @ [x])\<rparr>"

definition assign_config :: "ref \<Rightarrow> GovBRConfig \<Rightarrow> world \<Rightarrow> world" where
  "assign_config c cfg w = w\<lparr>configs := (configs w)(c := cfg)\<rparr>"

section \<open>A sample deployment\<close>

text \<open>
  A configuration whose scopes are an array of the caller's, the world that holds it, and
  the service that the constructor builds from it; the concrete checks below run on them.
  \<open>toy_digest\<close> stands in for the digest where a check needs two inputs of equal digest.
\<close>

definition sample_config :: GovBRConfig where
  "sample_config =
     \<lparr>clientId = Some ''client-1'', clientSecret = Some ''s3cr3t'',
      redirectUri = Some ''https://app.test/callback'',
      environment = Some staging, scopes = Some 0\<rparr>"

definition sample_world :: world where
  "sample_world =
     \<lparr>arrays = (\<lambda>r. if r = 0 then [''openid''] else []), next_ref = 1,
      configs = (\<lambda>c. sample_config), entropy = (\<lambda>n. char_of n), consumed = 0,
      requests = []\<rparr>"

definition sample_service :: AuthService where
  "sample_service =
     \<lparr>config = \<lparr>config_clientId = ''client-1'', config_clientSecret = ''s3cr3t'',
                config_redirectUri = ''https://app.test/callback'',
                config_environment = staging, config_scopes = 0\<rparr>,
      endpoints = ENDPOINTS staging,
      client = setupAxiosInterceptors
                 (axios_create 10000 [(''Content-Type'', ''application/json'')])\<rparr>"

definition no_params :: AuthorizeParams where
  "no_params =
     \<lparr>responseType = None, nonce = None, state = None, codeChallenge = None,
      codeChallengeMethod = None\<rparr>"

definition toy_digest :: "string \<Rightarrow> string" where
  "toy_digest s = take 1 s"

section \<open>Encodings: the facts\<close>

lemma replace_all_single: "replace_all c [r] s = map (\<lambda>x. if x = c then r else x) s"
  by (induction s) (simp_all add: replace_all_def)

lemma replace_all_empty: "replace_all c [] s = filter (\<lambda>x. x \<noteq> c) s"
  by (induction s) (simp_all add: replace_all_def)

lemma length_b64_alphabet: "length b64_alphabet = 64"
  by (simp add: b64_alphabet_def)

lemma length_b64url_alphabet: "length b64url_alphabet = 64"
  by (simp add: b64url_alphabet_def)

lemma distinct_b64_alphabet: "distinct b64_alphabet"
  by (simp add: b64_alphabet_def)

lemma b64_alphabet_urlsafe:
  "map (\<lambda>x. if x = CHR ''/'' then CHR ''_'' else x)
     (map (\<lambda>x. if x = CHR ''+'' then CHR ''-'' else x) b64_alphabet) = b64url_alphabet"
  by (simp add: b64_alphabet_def b64url_alphabet_def)

lemma b64url_alphabet_standard:
  "map (\<lambda>x. if x = CHR ''_'' then CHR ''/'' else x)
     (map (\<lambda>x. if x = CHR ''-'' then CHR ''+'' else x) b64url_alphabet) = b64_alphabet"
  by (simp add: b64_alphabet_def b64url_alphabet_def)

lemma b64_alphabet_no_pad: "CHR ''='' \<notin> set b64_alphabet"
  by (simp add: b64_alphabet_def)

lemma b64url_alphabet_safe:
  "CHR ''='' \<notin> set b64url_alphabet"
  "CHR ''+'' \<notin> set b64url_alphabet"
  "CHR ''/'' \<notin> set b64url_alphabet"
  by (simp_all add: b64url_alphabet_def)

lemma qr_div: "r < k \<Longrightarrow> (q * k + r) div k = (q::nat)"
  by simp

lemma qr_mod: "r < k \<Longrightarrow> (q * k + r) mod k = (r::nat)"
  by simp

lemma byte_div16: "y < 256 \<Longrightarrow> y div 16 < (16::nat)"
  by (simp add: less_mult_imp_div_less)

lemma byte_div64: "y < 256 \<Longrightarrow> y div 64 < (4::nat)"
  by (simp add: less_mult_imp_div_less)

lemma byte_div4: "y < 256 \<Longrightarrow> y div 4 < (64::nat)"
  by (simp add: less_mult_imp_div_less)

lemma sextet_mid1: "x mod 4 * 16 + r < (64::nat)" if "r < 16"
proof -
  have "x mod 4 \<le> 3" by simp
  then have "x mod 4 * 16 \<le> 48" by simp
  with that show ?thesis by simp
qed

lemma sextet_mid2: "x mod 16 * 4 + r < (64::nat)" if "r < 4"
proof -
  have "x mod 16 \<le> 15" by simp
  then have "x mod 16 * 4 \<le> 60" by simp
  with that show ?thesis by simp
qed

lemma sextets_bound: "list_all (\<lambda>i. i < 64) (sextets bs)"
proof (induction bs rule: sextets.induct)
  case (1 a b c rest)
  then show ?case
    using sextet_mid2 [of 0 "of_char b"]
    by (simp add: byte_div4 byte_div16 byte_div64 sextet_mid1 sextet_mid2)
next
  case (2 a b)
  show ?case
    using sextet_mid2 [of 0 "of_char b"]
    by (simp add: byte_div4 byte_div16 byte_div64 sextet_mid1)
next
  case (3 a)
  show ?case
    using sextet_mid1 [of 0 "of_char a"]
    by (simp add: byte_div4)
qed simp

lemma map_nth_in_set:
  "list_all (\<lambda>i. i < length xs) is \<Longrightarrow> set (map (\<lambda>i. xs ! i) is) \<subseteq> set xs"
  by (induction "is") auto

lemma map_map_nth:
  "list_all (\<lambda>i. i < length xs) is
   \<Longrightarrow> map f (map (\<lambda>i. xs ! i) is) = map (\<lambda>i. map f xs ! i) is"
  by (induction "is") auto

lemma unsextets_sextets: "unsextets (sextets bs) = bs"
proof (induction bs rule: sextets.induct)
  case (1 a b c rest)
  then show ?case by (simp add: qr_div qr_mod byte_div16 byte_div64)
next
  case (2 a b)
  show ?case by (simp add: qr_div qr_mod byte_div16 byte_div64)
next
  case (3 a)
  show ?case by simp
qed simp

lemma mod3_Suc3: "Suc (Suc (Suc n)) mod 3 = n mod 3"
proof -
  have "Suc (Suc (Suc n)) = n + 3" by simp
  then show ?thesis by (simp only: mod_add_self2)
qed

lemma mod4_plus4: "(k + 4 + x) mod 4 = (k + x) mod (4::nat)"
proof -
  have "k + 4 + x = (k + x) + 4" by simp
  then show ?thesis by (simp only: mod_add_self2)
qed

lemma sextets_total_length:
  "(length (sextets bs) + (3 - length bs mod 3) mod 3) mod 4 = 0"
proof (induction bs rule: sextets.induct)
  case (1 a b c rest)
  then show ?case by (simp add: mod3_Suc3 mod4_plus4)
qed simp_all

lemma sextets_padding:
  "(4 - length (sextets bs) mod 4) mod 4 = (3 - length bs mod 3) mod 3"
proof (induction bs rule: sextets.induct)
  case (1 a b c rest)
  then show ?case by (simp add: mod3_Suc3)
qed simp_all

lemma set_base64url: "set (base64url bs) \<subseteq> set b64url_alphabet"
proof -
  have "list_all (\<lambda>i. i < length b64url_alphabet) (sextets bs)"
    by (simp add: length_b64url_alphabet sextets_bound)
  then show ?thesis
    unfolding base64url_def by (rule map_nth_in_set)
qed

lemma base64_urlsafe:
  "replace_all CHR ''='' []
     (replace_all CHR ''/'' ''_'' (replace_all CHR ''+'' ''-'' (base64 bs))) = base64url bs"
proof -
  let ?f = "\<lambda>x. if x = CHR ''+'' then CHR ''-'' else x"
  let ?g = "\<lambda>x. if x = CHR ''/'' then CHR ''_'' else x"
  have bound: "list_all (\<lambda>i. i < length b64_alphabet) (sextets bs)"
    by (simp add: length_b64_alphabet sextets_bound)
  have s1: "map ?f (map (\<lambda>i. b64_alphabet ! i) (sextets bs))
            = map (\<lambda>i. map ?f b64_alphabet ! i) (sextets bs)"
    by (rule map_map_nth [OF bound])
  have bound2: "list_all (\<lambda>i. i < length (map ?f b64_alphabet)) (sextets bs)"
    using bound by simp
  have s2: "map ?g (map (\<lambda>i. map ?f b64_alphabet ! i) (sextets bs))
            = map (\<lambda>i. map ?g (map ?f b64_alphabet) ! i) (sextets bs)"
    by (rule map_map_nth [OF bound2])
  have body: "map ?g (map ?f (map (\<lambda>i. b64_alphabet ! i) (sextets bs))) = base64url bs"
    unfolding s1 s2 b64_alphabet_urlsafe base64url_def ..
  have nopad: "filter (\<lambda>x. x \<noteq> CHR ''='') (base64url bs) = base64url bs"
    using set_base64url [of bs] b64url_alphabet_safe(1) by (auto simp: filter_id_conv)
  have "replace_all CHR ''/'' ''_'' (replace_all CHR ''+'' ''-'' (base64 bs))
        = base64url bs @ replicate ((3 - length bs mod 3) mod 3) CHR ''=''"
    using body by (simp add: replace_all_single base64_def del: map_map)
  then show ?thesis
    using nopad by (simp add: replace_all_empty)
qed

lemma base64url_restore: "base64url_to_base64 (base64url bs) = base64 bs"
proof -
  let ?f = "\<lambda>x. if x = CHR ''-'' then CHR ''+'' else x"
  let ?g = "\<lambda>x. if x = CHR ''_'' then CHR ''/'' else x"
  have bound: "list_all (\<lambda>i. i < length b64url_alphabet) (sextets bs)"
    by (simp add: length_b64url_alphabet sextets_bound)
  have s1: "map ?f (map (\<lambda>i. b64url_alphabet ! i) (sextets bs))
            = map (\<lambda>i. map ?f b64url_alphabet ! i) (sextets bs)"
    by (rule map_map_nth [OF bound])
  have bound2: "list_all (\<lambda>i. i < length (map ?f b64url_alphabet)) (sextets bs)"
    using bound by simp
  have s2: "map ?g (map (\<lambda>i. map ?f b64url_alphabet ! i) (sextets bs))
            = map (\<lambda>i. map ?g (map ?f b64url_alphabet) ! i) (sextets bs)"
    by (rule map_map_nth [OF bound2])
  have body: "map ?g (map ?f (base64url bs)) = map (\<lambda>i. b64_alphabet ! i) (sextets bs)"
    unfolding base64url_def s1 s2 b64url_alphabet_standard ..
  show ?thesis
    by (simp add: base64url_to_base64_def replace_all_single body base64_def sextets_padding
          del: map_map)
qed

lemma b64_index_alphabet: "i < 64 \<Longrightarrow> b64_index (b64_alphabet ! i) = Some i"
proof -
  assume i: "i < 64"
  have "map_of (zip b64_alphabet [0..<64]) (b64_alphabet ! i) = Some ([0..<64] ! i)"
    by (rule map_of_zip_nth) (simp_all add: length_b64_alphabet distinct_b64_alphabet i)
  then show ?thesis using i by (simp add: b64_index_def)
qed

lemma those_b64_index:
  "list_all (\<lambda>i. i < 64) is
   \<Longrightarrow> those (map b64_index (map (\<lambda>i. b64_alphabet ! i) is)) = Some is"
  by (induction "is") (simp_all add: b64_index_alphabet)

lemma takeWhile_until_pad:
  "c \<notin> set xs \<Longrightarrow> takeWhile (\<lambda>x. x \<noteq> c) (xs @ replicate k c) = xs"
  by (induction xs) auto

lemma dropWhile_until_pad:
  "c \<notin> set xs \<Longrightarrow> dropWhile (\<lambda>x. x \<noteq> c) (xs @ replicate k c) = replicate k c"
  by (induction xs) auto

lemma base64_decode_base64: "base64_decode (base64 bs) = Some bs"
proof -
  let ?body = "map (\<lambda>i. b64_alphabet ! i) (sextets bs)"
  let ?k = "(3 - length bs mod 3) mod 3"
  have "list_all (\<lambda>i. i < length b64_alphabet) (sextets bs)"
    by (simp add: length_b64_alphabet sextets_bound)
  then have "set ?body \<subseteq> set b64_alphabet" by (rule map_nth_in_set)
  then have nopad: "CHR ''='' \<notin> set ?body"
    using b64_alphabet_no_pad by blast
  have tw: "takeWhile (\<lambda>c. c \<noteq> CHR ''='') (?body @ replicate ?k CHR ''='') = ?body"
    using nopad by (rule takeWhile_until_pad)
  have dw: "dropWhile (\<lambda>c. c \<noteq> CHR ''='') (?body @ replicate ?k CHR ''='')
            = replicate ?k CHR ''=''"
    using nopad by (rule dropWhile_until_pad)
  have len: "length (?body @ replicate ?k CHR ''='') mod 4 = 0"
    using sextets_total_length [of bs] by simp
  have k2: "?k \<le> 2"
  proof -
    have "?k < 3" by (rule mod_less_divisor) simp
    then show ?thesis by simp
  qed
  have "those (map b64_index ?body) = Some (sextets bs)"
    by (rule those_b64_index) (rule sextets_bound)
  then show ?thesis
    unfolding base64_decode_def base64_def Let_def tw dw
    using len k2 by (simp add: unsextets_sextets del: map_map)
qed

section \<open>Form encoding: the facts\<close>

lemma HEX_digits_roundtrip:
  "list_all (\<lambda>n. is_HEX (HEX_digit n) \<and> unHEX (HEX_digit n) = n
      \<and> HEX_digit n \<noteq> CHR ''&'' \<and> HEX_digit n \<noteq> CHR ''='') [0..<16]"
  by code_simp

lemma HEX_digit_facts:
  assumes "n < 16"
  shows "is_HEX (HEX_digit n)" "unHEX (HEX_digit n) = n"
    "HEX_digit n \<noteq> CHR ''&''" "HEX_digit n \<noteq> CHR ''=''"
proof -
  have "n \<in> set [0..<16]" using assms by simp
  with HEX_digits_roundtrip
  have "is_HEX (HEX_digit n) \<and> unHEX (HEX_digit n) = n
      \<and> HEX_digit n \<noteq> CHR ''&'' \<and> HEX_digit n \<noteq> CHR ''=''"
    unfolding list_all_iff by blast
  then show "is_HEX (HEX_digit n)" "unHEX (HEX_digit n) = n"
    "HEX_digit n \<noteq> CHR ''&''" "HEX_digit n \<noteq> CHR ''=''" by simp_all
qed

lemma byte_nibbles: "(of_char c :: nat) div 16 < 16" "(of_char c :: nat) mod 16 < 16"
  by (simp_all add: byte_div16)

lemma is_alnum_not_special:
  assumes "is_alnum c"
  shows "c \<noteq> CHR ''+''" "c \<noteq> CHR ''%''" "c \<noteq> CHR ''&''" "c \<noteq> CHR ''=''"
  using assms by (auto simp: is_alnum_def)

lemma urldecode_urlencode_byte: "urldecode (urlencode_byte c @ rest) = c # urldecode rest"
proof (cases "is_alnum c \<or> c \<in> set ''*-._''")
  case True
  then have "c \<noteq> CHR ''+''" "c \<noteq> CHR ''%''"
    using is_alnum_not_special by auto
  with True show ?thesis by (simp add: urlencode_byte_def)
next
  case False
  show ?thesis
  proof (cases "c = CHR '' ''")
    case True
    with False show ?thesis by (simp add: urlencode_byte_def)
  next
    case space: False
    have "char_of ((of_char c :: nat) div 16 * 16 + of_char c mod 16) = c" by simp
    with False space show ?thesis
      by (simp add: urlencode_byte_def HEX_digit_facts byte_nibbles)
  qed
qed

lemma urldecode_urlencode_append: "urldecode (urlencode s @ rest) = s @ urldecode rest"
  by (induction s) (simp_all add: urlencode_def urldecode_urlencode_byte)

lemma urldecode_urlencode: "urldecode (urlencode s) = s"
  using urldecode_urlencode_append [of s "[]"] by simp

lemma urlencode_byte_clean:
  "CHR ''&'' \<notin> set (urlencode_byte c)" "CHR ''='' \<notin> set (urlencode_byte c)"
proof -
  have hi: "HEX_digit (of_char c div 16) \<noteq> CHR ''&''" "HEX_digit (of_char c div 16) \<noteq> CHR ''=''"
    by (simp_all add: HEX_digit_facts byte_nibbles)
  have lo: "HEX_digit (of_char c mod 16) \<noteq> CHR ''&''" "HEX_digit (of_char c mod 16) \<noteq> CHR ''=''"
    by (simp_all add: HEX_digit_facts byte_nibbles)
  show "CHR ''&'' \<notin> set (urlencode_byte c)"
    using is_alnum_not_special(3) [of c] hi(1) lo(1)
    by (auto simp: urlencode_byte_def)
  show "CHR ''='' \<notin> set (urlencode_byte c)"
    using is_alnum_not_special(4) [of c] hi(2) lo(2)
    by (auto simp: urlencode_byte_def)
qed

lemma urlencode_clean: "CHR ''&'' \<notin> set (urlencode s)" "CHR ''='' \<notin> set (urlencode s)"
  using urlencode_byte_clean by (auto simp: urlencode_def)

lemma takeWhile_until: "c \<notin> set xs \<Longrightarrow> takeWhile (\<lambda>x. x \<noteq> c) (xs @ c # ys) = xs"
  by (induction xs) auto

lemma dropWhile_until: "c \<notin> set xs \<Longrightarrow> dropWhile (\<lambda>x. x \<noteq> c) (xs @ c # ys) = c # ys"
  by (induction xs) auto

lemma parse_entry_encoded: "parse_entry (urlencode k @ CHR ''='' # urlencode v) = (k, v)"
  using urlencode_clean(2) [of k]
  by (simp add: parse_entry_def takeWhile_until dropWhile_until urldecode_urlencode)

lemma split_on_clean: "sep \<notin> set x \<Longrightarrow> split_on sep x = [x]"
  by (induction x) auto

lemma split_on_append:
  "sep \<notin> set x \<Longrightarrow> split_on sep (x @ sep # rest) = x # split_on sep rest"
  by (induction x) auto

lemma split_on_join:
  "list_all (\<lambda>x. c \<notin> set x) xs \<Longrightarrow> xs \<noteq> [] \<Longrightarrow> split_on c (join [c] xs) = xs"
  by (induction "[c]" xs rule: join.induct) (simp_all add: split_on_clean split_on_append)

lemma parse_query_toString: "parse_query (URLSearchParams_toString entries) = entries"
proof (cases entries)
  case Nil
  then show ?thesis by (simp add: parse_query_def URLSearchParams_toString_def)
next
  case (Cons e es)
  let ?ser = "\<lambda>(k, v). urlencode k @ ''='' @ urlencode v"
  have clean: "list_all (\<lambda>x. CHR ''&'' \<notin> set x) (map ?ser entries)"
    using urlencode_clean(1) by (auto simp: list_all_iff)
  have "map ?ser entries \<noteq> []" using Cons by simp
  with clean have "split_on CHR ''&'' (join ''&'' (map ?ser entries)) = map ?ser entries"
    by (rule split_on_join)
  moreover have "filter (\<lambda>e. e \<noteq> []) (map ?ser entries) = map ?ser entries"
    by (auto simp: filter_id_conv)
  moreover have "map parse_entry (map ?ser entries) = entries"
    by (induction entries) (auto simp: parse_entry_encoded)
  ultimately show ?thesis
    by (simp add: parse_query_def URLSearchParams_toString_def)
qed

section \<open>The service: the facts\<close>

lemma AuthService_new_unfold:
  "AuthService_new c w =
     (if falsy (clientId (configs w c)) \<or> falsy (clientSecret (configs w c))
         \<or> falsy (redirectUri (configs w c))
      then (Inl (Error ''Missing required configuration parameters''), w)
      else (Inr \<lparr>config =
                  \<lparr>config_clientId = or_default (clientId (configs w c)) [],
                   config_clientSecret = or_default (clientSecret (configs w c)) [],
                   config_redirectUri = or_default (redirectUri (configs w c)) [],
                   config_environment =
                     (case environment (configs w c) of None \<Rightarrow> production | Some e \<Rightarrow> e),
                   config_scopes =
                     (case scopes (configs w c) of None \<Rightarrow> next_ref w | Some r \<Rightarrow> r)\<rparr>,
                endpoints =
                  ENDPOINTS (case environment (configs w c) of None \<Rightarrow> production | Some e \<Rightarrow> e),
                client = setupAxiosInterceptors
                           (axios_create 10000 [(''Content-Type'', ''application/json'')])\<rparr>,
            (case scopes (configs w c) of
               None \<Rightarrow> w\<lparr>arrays := (arrays w)(next_ref w := DEFAULT_SCOPES),
                         next_ref := Suc (next_ref w)\<rparr>
             | Some r \<Rightarrow> w)))"
  by (simp add: AuthService_new_def Let_def new_array_def split: option.split)

lemma falsy_alt: "falsy p \<longleftrightarrow> p = None \<or> p = Some []"
  by (cases p) simp_all

lemma truthy_or_default: "\<not> falsy p \<Longrightarrow> Some (or_default p d) = p"
  by (cases p) simp_all

lemma AuthService_new_InrD:
  assumes "AuthService_new c w = (Inr this, w')"
  shows "clientId (configs w c) = Some (config_clientId (config this))"
    and "clientSecret (configs w c) = Some (config_clientSecret (config this))"
    and "redirectUri (configs w c) = Some (config_redirectUri (config this))"
    and "config_clientId (config this) \<noteq> []"
    and "config_clientSecret (config this) \<noteq> []"
    and "config_redirectUri (config this) \<noteq> []"
    and "config_environment (config this)
          = (case environment (configs w c) of None \<Rightarrow> production | Some e \<Rightarrow> e)"
    and "config_scopes (config this)
          = (case scopes (configs w c) of None \<Rightarrow> next_ref w | Some r \<Rightarrow> r)"
    and "endpoints this = ENDPOINTS (config_environment (config this))"
    and "client this = setupAxiosInterceptors
                         (axios_create 10000 [(''Content-Type'', ''application/json'')])"
    and "w' = (case scopes (configs w c) of
                 None \<Rightarrow> w\<lparr>arrays := (arrays w)(next_ref w := DEFAULT_SCOPES),
                           next_ref := Suc (next_ref w)\<rparr>
               | Some r \<Rightarrow> w)"
proof -
  let ?cfg = "configs w c"
  from assms have ok: "\<not> falsy (clientId ?cfg)" "\<not> falsy (clientSecret ?cfg)"
    "\<not> falsy (redirectUri ?cfg)"
    by (auto simp: AuthService_new_unfold split: if_splits)
  with assms have this_eq: "this = 
      \<lparr>config =
          \<lparr>config_clientId = or_default (clientId ?cfg) [],
           config_clientSecret = or_default (clientSecret ?cfg) [],
           config_redirectUri = or_default (redirectUri ?cfg) [],
           config_environment = (case environment ?cfg of None \<Rightarrow> production | Some e \<Rightarrow> e),
           config_scopes = (case scopes ?cfg of None \<Rightarrow> next_ref w | Some r \<Rightarrow> r)\<rparr>,
        endpoints = ENDPOINTS (case environment ?cfg of None \<Rightarrow> production | Some e \<Rightarrow> e),
        client = setupAxiosInterceptors
                   (axios_create 10000 [(''Content-Type'', ''application/json'')])\<rparr>"
    and w'_eq: "w' = (case scopes ?cfg of
                 None \<Rightarrow> w\<lparr>arrays := (arrays w)(next_ref w := DEFAULT_SCOPES),
                           next_ref := Suc (next_ref w)\<rparr>
               | Some r \<Rightarrow> w)"
    by (simp_all add: AuthService_new_unfold)
  show "clientId ?cfg = Some (config_clientId (config this))"
    using ok(1) by (simp add: this_eq truthy_or_default)
  show "clientSecret ?cfg = Some (config_clientSecret (config this))"
    using ok(2) by (simp add: this_eq truthy_or_default)
  show "redirectUri ?cfg = Some (config_redirectUri (config this))"
    using ok(3) by (simp add: this_eq truthy_or_default)
  show "config_clientId (config this) \<noteq> []"
    using ok(1) by (cases "clientId ?cfg") (simp_all add: this_eq)
  show "config_clientSecret (config this) \<noteq> []"
    using ok(2) by (cases "clientSecret ?cfg") (simp_all add: this_eq)
  show "config_redirectUri (config this) \<noteq> []"
    using ok(3) by (cases "redirectUri ?cfg") (simp_all add: this_eq)
  show "config_environment (config this)
          = (case environment ?cfg of None \<Rightarrow> production | Some e \<Rightarrow> e)"
    by (simp add: this_eq)
  show "config_scopes (config this) = (case scopes ?cfg of None \<Rightarrow> next_ref w | Some r \<Rightarrow> r)"
    by (simp add: this_eq)
  show "endpoints this = ENDPOINTS (config_environment (config this))"
    by (simp add: this_eq)
  show "client this = setupAxiosInterceptors
                         (axios_create 10000 [(''Content-Type'', ''application/json'')])"
    by (simp add: this_eq)
  show "w' = (case scopes ?cfg of
                 None \<Rightarrow> w\<lparr>arrays := (arrays w)(next_ref w := DEFAULT_SCOPES),
                           next_ref := Suc (next_ref w)\<rparr>
               | Some r \<Rightarrow> w)"
    by (rule w'_eq)
qed

lemma sample_construction:
  "configs w 0 = sample_config \<Longrightarrow> AuthService_new 0 w = (Inr sample_service, w)"
  by (simp add: AuthService_new_unfold sample_config_def sample_service_def)

lemma sample_service_fields:
  "config_clientId (config sample_service) = ''client-1''"
  "config_clientSecret (config sample_service) = ''s3cr3t''"
  "config_redirectUri (config sample_service) = ''https://app.test/callback''"
  "config_environment (config sample_service) = staging"
  "config_scopes (config sample_service) = 0"
  "endpoints sample_service = ENDPOINTS staging"
  by (simp_all add: sample_service_def)

lemma sample_world_fields:
  "arrays sample_world 0 = [''openid'']"
  "next_ref sample_world = 1"
  "configs sample_world c = sample_config"
  "entropy sample_world = char_of"
  "consumed sample_world = 0"
  "requests sample_world = []"
  by (simp_all add: sample_world_def)

lemma normalized_settle:
  "response_data (case settle out of Inl e \<Rightarrow> Inl (onRejected e) | Inr resp \<Rightarrow> Inr resp)
   = normalized out"
proof (cases out)
  case (Response s d)
  then show ?thesis by (simp add: validateStatus_def onRejected_def)
next
  case (NetworkError m)
  then show ?thesis by (simp add: onRejected_def)
next
  case (Exception e)
  then show ?thesis by (cases e) (simp_all add: onRejected_def)
qed

lemma client_request:
  assumes "client this = setupAxiosInterceptors
                           (axios_create 10000 [(''Content-Type'', ''application/json'')])"
  shows "axios_request (client this) transport req w =
     (case settle (transport
             (req\<lparr>req_headers :=
                    merge_headers [(''Content-Type'', ''application/json'')] (req_headers req),
                  req_timeout := 10000\<rparr>)) of
        Inl e \<Rightarrow> Inl (onRejected e) | Inr resp \<Rightarrow> Inr resp,
      w\<lparr>requests := requests w @
           [req\<lparr>req_headers :=
                   merge_headers [(''Content-Type'', ''application/json'')] (req_headers req),
                 req_timeout := 10000\<rparr>]\<rparr>)"
  by (simp add: assms axios_request_def setupAxiosInterceptors_def axios_create_def Let_def
        split: sum.split)

lemma getTokens_unfold:
  assumes "client this = setupAxiosInterceptors
                           (axios_create 10000 [(''Content-Type'', ''application/json'')])"
  shows "getTokens transport this code codeVerifier w =
     (normalized (transport
        \<lparr>req_method = POST, req_url = token (endpoints this), req_params = [],
         req_headers = [(''Content-Type'', ''application/x-www-form-urlencoded''),
                        (''Authorization'', ''Basic '' @ base64URLEncode
                           (config_clientId (config this) @ '':'' @
                            config_clientSecret (config this)))],
         req_data = Some (URLSearchParams_toString
               [(''grant_type'', ''authorization_code''),
                (''code'', code),
                (''redirect_uri'', config_redirectUri (config this)),
                (''code_verifier'', codeVerifier)]),
         req_timeout = 10000\<rparr>),
      w\<lparr>requests := requests w @
        [\<lparr>req_method = POST, req_url = token (endpoints this), req_params = [],
         req_headers = [(''Content-Type'', ''application/x-www-form-urlencoded''),
                        (''Authorization'', ''Basic '' @ base64URLEncode
                           (config_clientId (config this) @ '':'' @
                            config_clientSecret (config this)))],
         req_data = Some (URLSearchParams_toString
               [(''grant_type'', ''authorization_code''),
                (''code'', code),
                (''redirect_uri'', config_redirectUri (config this)),
                (''code_verifier'', codeVerifier)]),
         req_timeout = 10000\<rparr>]\<rparr>)"
  unfolding getTokens_def axios_post_def client_request [OF assms] Let_def split_conv
    normalized_settle
  by (simp add: merge_headers_def)

lemma getUserInfo_unfold:
  assumes "client this = setupAxiosInterceptors
                           (axios_create 10000 [(''Content-Type'', ''application/json'')])"
  shows "getUserInfo transport this accessToken w =
     (normalized (transport
        \<lparr>req_method = GET, req_url = userinfo (endpoints this), req_params = [],
         req_headers = [(''Content-Type'', ''application/json''),
                        (''Authorization'', ''Bearer '' @ accessToken)],
         req_data = None, req_timeout = 10000\<rparr>),
      w\<lparr>requests := requests w @
        [\<lparr>req_method = GET, req_url = userinfo (endpoints this), req_params = [],
         req_headers = [(''Content-Type'', ''application/json''),
                        (''Authorization'', ''Bearer '' @ accessToken)],
         req_data = None, req_timeout = 10000\<rparr>]\<rparr>)"
  unfolding getUserInfo_def axios_get_def client_request [OF assms] Let_def split_conv
    normalized_settle
  by (simp add: merge_headers_def)

lemma getConfiabilidadeNiveis_unfold:
  assumes "client this = setupAxiosInterceptors
                           (axios_create 10000 [(''Content-Type'', ''application/json'')])"
  shows "getConfiabilidadeNiveis transport this accessToken cpf w =
     (normalized (transport
        \<lparr>req_method = GET,
         req_url = confiabilidades (endpoints this) @ ''/contas/'' @ cpf @ ''/niveis'',
         req_params = [(''response-type'', ''ids'')],
         req_headers = [(''Content-Type'', ''application/json''),
                        (''Authorization'', ''Bearer '' @ accessToken)],
         req_data = None, req_timeout = 10000\<rparr>),
      w\<lparr>requests := requests w @
        [\<lparr>req_method = GET,
         req_url = confiabilidades (endpoints this) @ ''/contas/'' @ cpf @ ''/niveis'',
         req_params = [(''response-type'', ''ids'')],
         req_headers = [(''Content-Type'', ''application/json''),
                        (''Authorization'', ''Bearer '' @ accessToken)],
         req_data = None, req_timeout = 10000\<rparr>]\<rparr>)"
  unfolding getConfiabilidadeNiveis_def axios_get_def client_request [OF assms] Let_def
    split_conv normalized_settle
  by (simp add: merge_headers_def)

lemma getConfiabilidadeSelos_unfold:
  assumes "client this = setupAxiosInterceptors
                           (axios_create 10000 [(''Content-Type'', ''application/json'')])"
  shows "getConfiabilidadeSelos transport this accessToken cpf w =
     (normalized (transport
        \<lparr>req_method = GET,
         req_url = confiabilidades (endpoints this) @ ''/contas/'' @ cpf @ ''/confiabilidades'',
         req_params = [(''response-type'', ''ids'')],
         req_headers = [(''Content-Type'', ''application/json''),
                        (''Authorization'', ''Bearer '' @ accessToken)],
         req_data = None, req_timeout = 10000\<rparr>),
      w\<lparr>requests := requests w @
        [\<lparr>req_method = GET,
         req_url = confiabilidades (endpoints this) @ ''/contas/'' @ cpf @ ''/confiabilidades'',
         req_params = [(''response-type'', ''ids'')],
         req_headers = [(''Content-Type'', ''application/json''),
                        (''Authorization'', ''Bearer '' @ accessToken)],
         req_data = None, req_timeout = 10000\<rparr>]\<rparr>)"
  unfolding getConfiabilidadeSelos_def axios_get_def client_request [OF assms] Let_def
    split_conv normalized_settle
  by (simp add: merge_headers_def)

lemma or_generate_fst:
  "fst (or_generate p g w) = (case p of None \<Rightarrow> fst (g w) | Some v \<Rightarrow> if v = [] then fst (g w) else v)"
  by (cases p) simp_all

lemma or_generate_snd:
  "snd (or_generate p g w) = (if falsy p then snd (g w) else w)"
  by (cases p) simp_all

lemma or_default_alt:
  "or_default p d = (case p of None \<Rightarrow> d | Some v \<Rightarrow> if v = [] then d else v)"
  by (cases p) simp_all

lemma generateCodeVerifier_eq:
  "generateCodeVerifier w =
     (base64url (map (entropy w) [consumed w ..< consumed w + 32]),
      w\<lparr>consumed := consumed w + 32\<rparr>)"
  by (simp add: generateCodeVerifier_def randomBytes_def)

lemma generateNonce_eq:
  "generateNonce w =
     (hex (map (entropy w) [consumed w ..< consumed w + 16]), w\<lparr>consumed := consumed w + 16\<rparr>)"
  by (simp add: generateNonce_def randomBytes_def)

lemma generateState_eq:
  "generateState w =
     (hex (map (entropy w) [consumed w ..< consumed w + 16]), w\<lparr>consumed := consumed w + 16\<rparr>)"
  by (simp add: generateState_def randomBytes_def)

lemma authorizationQueryParams_fst:
  "fst (authorizationQueryParams sha256 this params w) =
     [(''response_type'', or_default (responseType params) ''code''),
      (''client_id'', config_clientId (config this)),
      (''scope'', join '' '' (arrays w (config_scopes (config this)))),
      (''redirect_uri'', config_redirectUri (config this)),
      (''nonce'',
         case nonce params of
           None \<Rightarrow> hex (map (entropy w) [consumed w + 32 ..< consumed w + 48])
         | Some v \<Rightarrow>
             if v = [] then hex (map (entropy w) [consumed w + 32 ..< consumed w + 48]) else v),
      (''state'',
         case state params of
           None \<Rightarrow> hex (map (entropy w)
                    [consumed w + (if falsy (nonce params) then 48 else 32)
                       ..< consumed w + (if falsy (nonce params) then 48 else 32) + 16])
         | Some v \<Rightarrow>
             if v = []
             then hex (map (entropy w)
                    [consumed w + (if falsy (nonce params) then 48 else 32)
                       ..< consumed w + (if falsy (nonce params) then 48 else 32) + 16])
             else v),
      (''code_challenge'',
         or_default (codeChallenge params)
           (generateCodeChallenge sha256
              (base64url (map (entropy w) [consumed w ..< consumed w + 32])))),
      (''code_challenge_method'', or_default (codeChallengeMethod params) ''S256'')]"
  by (simp add: authorizationQueryParams_def generateCodeVerifier_eq generateNonce_eq
        generateState_eq split_def Let_def or_generate_fst or_generate_snd add.assoc
        split: option.split)

lemma authorizationQueryParams_snd:
  "snd (authorizationQueryParams sha256 this params w) =
     w\<lparr>consumed := consumed w + 32 + (if falsy (nonce params) then 16 else 0)
                      + (if falsy (state params) then 16 else 0)\<rparr>"
  by (simp add: authorizationQueryParams_def generateCodeVerifier_eq generateNonce_eq
        generateState_eq split_def Let_def or_generate_snd)

lemma generateAuthorizationUrl_fst:
  "fst (generateAuthorizationUrl sha256 this params w) =
     authorize (endpoints this) @ ''?'' @
       URLSearchParams_toString (fst (authorizationQueryParams sha256 this params w))"
  by (simp add: generateAuthorizationUrl_def split_def Let_def)

lemma generateAuthorizationUrl_snd:
  "snd (generateAuthorizationUrl sha256 this params w) =
     snd (authorizationQueryParams sha256 this params w)"
  by (simp add: generateAuthorizationUrl_def split_def Let_def)

lemma generateAuthorizationUrl_query:
  "parse_query (drop (Suc (length (authorize (endpoints this))))
      (fst (generateAuthorizationUrl sha256 this params w)))
   = fst (authorizationQueryParams sha256 this params w)"
  by (simp add: generateAuthorizationUrl_fst parse_query_toString)

lemma generateAuthorizationUrl_reads:
  assumes "arrays w (config_scopes (config this)) = arrays w' (config_scopes (config this))"
    and "entropy w = entropy w'"
    and "consumed w = consumed w'"
  shows "fst (generateAuthorizationUrl sha256 this params w)
           = fst (generateAuthorizationUrl sha256 this params w')"
  unfolding generateAuthorizationUrl_fst authorizationQueryParams_fst assms ..

section \<open>Construction\<close>

text \<open>
  C2. The constructor throws exactly when one of \<open>clientId\<close>, \<open>clientSecret\<close>,
  \<open>redirectUri\<close> is absent or empty, and then it throws the configuration error and
  leaves the world as it was. Otherwise it returns a service that holds the three values,
  the environment of the configuration or \<open>production\<close> when there is none, and the
  scopes of the configuration or the list \<open>openid\<close>, \<open>email\<close>, \<open>profile\<close>,
  \<open>govbr_confiabilidades\<close> when there are none.
\<close>

theorem construction_fails_iff_missing:
  "((\<exists>e. fst (AuthService_new c w) = Inl e) =
      (clientId (configs w c) = None \<or> clientId (configs w c) = Some []
       \<or> clientSecret (configs w c) = None \<or> clientSecret (configs w c) = Some []
       \<or> redirectUri (configs w c) = None \<or> redirectUri (configs w c) = Some []))
   \<and> (if clientId (configs w c) = None \<or> clientId (configs w c) = Some []
          \<or> clientSecret (configs w c) = None \<or> clientSecret (configs w c) = Some []
          \<or> redirectUri (configs w c) = None \<or> redirectUri (configs w c) = Some []
       then AuthService_new c w
              = (Inl (Error ''Missing required configuration parameters''), w)
       else \<exists>this w'.
              AuthService_new c w = (Inr this, w')
              \<and> clientId (configs w c) = Some (config_clientId (config this))
              \<and> clientSecret (configs w c) = Some (config_clientSecret (config this))
              \<and> redirectUri (configs w c) = Some (config_redirectUri (config this))
              \<and> config_environment (config this)
                  = (case environment (configs w c) of None \<Rightarrow> production | Some e \<Rightarrow> e)
              \<and> arrays w' (config_scopes (config this))
                  = (case scopes (configs w c) of
                       None \<Rightarrow> [''openid'', ''email'', ''profile'', ''govbr_confiabilidades'']
                     | Some r \<Rightarrow> arrays w r))"
proof -
  let ?missing = "clientId (configs w c) = None \<or> clientId (configs w c) = Some []
       \<or> clientSecret (configs w c) = None \<or> clientSecret (configs w c) = Some []
       \<or> redirectUri (configs w c) = None \<or> redirectUri (configs w c) = Some []"
  have missing: "?missing \<longleftrightarrow> falsy (clientId (configs w c)) \<or> falsy (clientSecret (configs w c))
      \<or> falsy (redirectUri (configs w c))"
    by (simp add: falsy_alt disj_ac)
  show ?thesis
  proof (cases ?missing)
    case True
    then have "AuthService_new c w = (Inl (Error ''Missing required configuration parameters''), w)"
      using missing by (simp add: AuthService_new_unfold)
    with True show ?thesis by simp
  next
    case False
    then have ok: "\<not> (falsy (clientId (configs w c)) \<or> falsy (clientSecret (configs w c))
      \<or> falsy (redirectUri (configs w c)))"
      using missing by simp
    obtain this w' where new: "AuthService_new c w = (Inr this, w')"
      using ok by (simp add: AuthService_new_unfold)
    have scopes_value: "arrays w' (config_scopes (config this))
        = (case scopes (configs w c) of
             None \<Rightarrow> [''openid'', ''email'', ''profile'', ''govbr_confiabilidades'']
           | Some r \<Rightarrow> arrays w r)"
      unfolding AuthService_new_InrD(8,11) [OF new]
      by (simp add: DEFAULT_SCOPES_def split: option.split)
    have "\<not> (\<exists>e. fst (AuthService_new c w) = Inl e)"
      using new by simp
    moreover have "\<exists>this w'.
              AuthService_new c w = (Inr this, w')
              \<and> clientId (configs w c) = Some (config_clientId (config this))
              \<and> clientSecret (configs w c) = Some (config_clientSecret (config this))
              \<and> redirectUri (configs w c) = Some (config_redirectUri (config this))
              \<and> config_environment (config this)
                  = (case environment (configs w c) of None \<Rightarrow> production | Some e \<Rightarrow> e)
              \<and> arrays w' (config_scopes (config this))
                  = (case scopes (configs w c) of
                       None \<Rightarrow> [''openid'', ''email'', ''profile'', ''govbr_confiabilidades'']
                     | Some r \<Rightarrow> arrays w r)"
      using new AuthService_new_InrD(1,2,3,7) [OF new] scopes_value by blast
    ultimately show ?thesis using False by (simp only: if_False)
  qed
qed

section \<open>The configuration after construction\<close>

text \<open>
  C1, as stated, fails for a scopes array of the caller's: the constructor keeps the
  reference, so an element pushed on the array after the construction shows in the
  \<open>scope\<close> of the next authorization URL.
\<close>

theorem scopes_array_frozen_counterexample:
  "AuthService_new 0 sample_world = (Inr sample_service, sample_world)
   \<and> scopes (configs sample_world 0) = Some 0
   \<and> fst (generateAuthorizationUrl toy_digest sample_service no_params sample_world)
       = ''https://sso.staging.acesso.gov.br/authorize?response_type=code&client_id=client-1&scope=openid&redirect_uri=https%3A%2F%2Fapp.test%2Fcallback&nonce=202122232425262728292a2b2c2d2e2f&state=303132333435363738393a3b3c3d3e3f&code_challenge=QQ&code_challenge_method=S256''
   \<and> fst (generateAuthorizationUrl toy_digest sample_service no_params
            (array_push 0 ''admin'' sample_world))
       = ''https://sso.staging.acesso.gov.br/authorize?response_type=code&client_id=client-1&scope=openid+admin&redirect_uri=https%3A%2F%2Fapp.test%2Fcallback&nonce=202122232425262728292a2b2c2d2e2f&state=303132333435363738393a3b3c3d3e3f&code_challenge=QQ&code_challenge_method=S256''
   \<and> fst (generateAuthorizationUrl toy_digest sample_service no_params
            (array_push 0 ''admin'' sample_world))
       \<noteq> fst (generateAuthorizationUrl toy_digest sample_service no_params sample_world)"
proof -
  have new: "AuthService_new 0 sample_world = (Inr sample_service, sample_world)"
    by (rule sample_construction) (simp add: sample_world_def)
  have sc: "scopes (configs sample_world 0) = Some 0"
    by (simp add: sample_world_def sample_config_def)
  have before: "fst (generateAuthorizationUrl toy_digest sample_service no_params sample_world)
       = ''https://sso.staging.acesso.gov.br/authorize?response_type=code&client_id=client-1&scope=openid&redirect_uri=https%3A%2F%2Fapp.test%2Fcallback&nonce=202122232425262728292a2b2c2d2e2f&state=303132333435363738393a3b3c3d3e3f&code_challenge=QQ&code_challenge_method=S256''"
    by code_simp
  have after: "fst (generateAuthorizationUrl toy_digest sample_service no_params
            (array_push 0 ''admin'' sample_world))
       = ''https://sso.staging.acesso.gov.br/authorize?response_type=code&client_id=client-1&scope=openid+admin&redirect_uri=https%3A%2F%2Fapp.test%2Fcallback&nonce=202122232425262728292a2b2c2d2e2f&state=303132333435363738393a3b3c3d3e3f&code_challenge=QQ&code_challenge_method=S256''"
    by code_simp
  have differ: "fst (generateAuthorizationUrl toy_digest sample_service no_params
            (array_push 0 ''admin'' sample_world))
       \<noteq> fst (generateAuthorizationUrl toy_digest sample_service no_params sample_world)"
    unfolding before after by simp
  show ?thesis using new sc before after differ by blast
qed

text \<open>
  C1, amended. The defaults are resolved once, at construction, and the service holds
  its own copy of the fields of the configuration. In a later world \<open>w\<close> that differs
  from the world \<open>w1\<close> after construction in any configuration object, in any array
  except the one the service holds, and in the requests issued, every operation does
  what it does in \<open>w1\<close>, given the same random bytes: the authorization URL is the
  same, and each network operation sends the same request and returns the same result.
  When the configuration had no scopes, the array the service holds is a new one with
  the default scopes, so pushing on any array that existed before the construction leaves
  the authorization URL as it is. (The array of a configuration that had scopes is held
  by reference; nothing is said here about changing it in place.)
\<close>

theorem configuration_resolved_at_construction:
  assumes "AuthService_new c w0 = (Inr this, w1)"
    and "arrays w (config_scopes (config this)) = arrays w1 (config_scopes (config this))"
    and "entropy w = entropy w1"
    and "consumed w = consumed w1"
  shows "fst (generateAuthorizationUrl sha256 this params w)
           = fst (generateAuthorizationUrl sha256 this params w1)
       \<and> fst (getTokens transport this code codeVerifier w)
           = fst (getTokens transport this code codeVerifier w1)
       \<and> last (requests (snd (getTokens transport this code codeVerifier w)))
           = last (requests (snd (getTokens transport this code codeVerifier w1)))
       \<and> fst (getUserInfo transport this accessToken w)
           = fst (getUserInfo transport this accessToken w1)
       \<and> last (requests (snd (getUserInfo transport this accessToken w)))
           = last (requests (snd (getUserInfo transport this accessToken w1)))
       \<and> fst (getConfiabilidadeNiveis transport this accessToken cpf w)
           = fst (getConfiabilidadeNiveis transport this accessToken cpf w1)
       \<and> last (requests (snd (getConfiabilidadeNiveis transport this accessToken cpf w)))
           = last (requests (snd (getConfiabilidadeNiveis transport this accessToken cpf w1)))
       \<and> fst (getConfiabilidadeSelos transport this accessToken cpf w)
           = fst (getConfiabilidadeSelos transport this accessToken cpf w1)
       \<and> last (requests (snd (getConfiabilidadeSelos transport this accessToken cpf w)))
           = last (requests (snd (getConfiabilidadeSelos transport this accessToken cpf w1)))
       \<and> (scopes (configs w0 c) = None \<longrightarrow>
            config_scopes (config this) = next_ref w0
            \<and> arrays w1 (config_scopes (config this)) = DEFAULT_SCOPES
            \<and> (\<forall>r x. r < next_ref w0 \<longrightarrow>
                  fst (generateAuthorizationUrl sha256 this params (array_push r x w1))
                    = fst (generateAuthorizationUrl sha256 this params w1)))"
proof -
  note facts = AuthService_new_InrD [OF assms(1)]
  have url: "fst (generateAuthorizationUrl sha256 this params w)
           = fst (generateAuthorizationUrl sha256 this params w1)"
    using assms(2,3,4) by (rule generateAuthorizationUrl_reads)
  have tokens: "fst (getTokens transport this code codeVerifier w)
           = fst (getTokens transport this code codeVerifier w1)"
     "last (requests (snd (getTokens transport this code codeVerifier w)))
           = last (requests (snd (getTokens transport this code codeVerifier w1)))"
    unfolding getTokens_unfold [OF facts(10)] by simp_all
  have info: "fst (getUserInfo transport this accessToken w)
           = fst (getUserInfo transport this accessToken w1)"
     "last (requests (snd (getUserInfo transport this accessToken w)))
           = last (requests (snd (getUserInfo transport this accessToken w1)))"
    unfolding getUserInfo_unfold [OF facts(10)] by simp_all
  have niveis: "fst (getConfiabilidadeNiveis transport this accessToken cpf w)
           = fst (getConfiabilidadeNiveis transport this accessToken cpf w1)"
     "last (requests (snd (getConfiabilidadeNiveis transport this accessToken cpf w)))
           = last (requests (snd (getConfiabilidadeNiveis transport this accessToken cpf w1)))"
    unfolding getConfiabilidadeNiveis_unfold [OF facts(10)] by simp_all
  have selos: "fst (getConfiabilidadeSelos transport this accessToken cpf w)
           = fst (getConfiabilidadeSelos transport this accessToken cpf w1)"
     "last (requests (snd (getConfiabilidadeSelos transport this accessToken cpf w)))
           = last (requests (snd (getConfiabilidadeSelos transport this accessToken cpf w1)))"
    unfolding getConfiabilidadeSelos_unfold [OF facts(10)] by simp_all
  have defaults: "config_scopes (config this) = next_ref w0
            \<and> arrays w1 (config_scopes (config this)) = DEFAULT_SCOPES
            \<and> (\<forall>r x. r < next_ref w0 \<longrightarrow>
                  fst (generateAuthorizationUrl sha256 this params (array_push r x w1))
                    = fst (generateAuthorizationUrl sha256 this params w1))"
    if none: "scopes (configs w0 c) = None"
  proof -
    have ref: "config_scopes (config this) = next_ref w0"
      using facts(8) none by simp
    have w1: "w1 = w0\<lparr>arrays := (arrays w0)(next_ref w0 := DEFAULT_SCOPES),
                        next_ref := Suc (next_ref w0)\<rparr>"
      using facts(11) none by simp
    have held: "arrays w1 (config_scopes (config this)) = DEFAULT_SCOPES"
      by (simp add: ref w1)
    have "fst (generateAuthorizationUrl sha256 this params (array_push r x w1))
            = fst (generateAuthorizationUrl sha256 this params w1)" if "r < next_ref w0" for r x
    proof -
      have "arrays (array_push r x w1) (config_scopes (config this))
          = arrays w1 (config_scopes (config this))"
        using that by (simp add: array_push_def ref)
      moreover have "entropy (array_push r x w1) = entropy w1"
        "consumed (array_push r x w1) = consumed w1"
        by (simp_all add: array_push_def)
      ultimately show ?thesis
        by (rule generateAuthorizationUrl_reads)
    qed
    with ref held show ?thesis by blast
  qed
  show ?thesis
    using url tokens info niveis selos defaults by blast
qed

text \<open>
  On the sample service, after the caller has overwritten every field of its
  configuration object; and on the service built from the sample configuration without
  scopes, after the caller has pushed on its own array.
\<close>

theorem configuration_resolved_at_construction_witness:
  "fst (generateAuthorizationUrl toy_digest sample_service no_params
          (assign_config 0
             \<lparr>clientId = Some ''other'', clientSecret = None, redirectUri = None,
              environment = Some production, scopes = None\<rparr> sample_world))
     = fst (generateAuthorizationUrl toy_digest sample_service no_params sample_world)
   \<and> (case AuthService_new 0 (sample_world\<lparr>configs := (\<lambda>c. sample_config\<lparr>scopes := None\<rparr>)\<rparr>) of
        (Inl e, w1) \<Rightarrow> False
      | (Inr this, w1) \<Rightarrow>
          config_scopes (config this) = 1
          \<and> arrays w1 1 = [''openid'', ''email'', ''profile'', ''govbr_confiabilidades'']
          \<and> fst (generateAuthorizationUrl toy_digest this no_params
                   (array_push 0 ''admin'' w1))
              = fst (generateAuthorizationUrl toy_digest this no_params w1))"
proof -
  let ?cfg = "\<lparr>clientId = Some ''other'', clientSecret = None, redirectUri = None,
              environment = Some production, scopes = None\<rparr>"
  let ?w0 = "sample_world\<lparr>configs := (\<lambda>c. sample_config\<lparr>scopes := None\<rparr>)\<rparr>"
  have new: "AuthService_new 0 sample_world = (Inr sample_service, sample_world)"
    by (rule sample_construction) (simp add: sample_world_def)
  have first: "fst (generateAuthorizationUrl toy_digest sample_service no_params
          (assign_config 0 ?cfg sample_world))
     = fst (generateAuthorizationUrl toy_digest sample_service no_params sample_world)"
    by (rule configuration_resolved_at_construction [OF new, THEN conjunct1])
      (simp_all add: assign_config_def)
  obtain this w1 where new': "AuthService_new 0 ?w0 = (Inr this, w1)"
    by (simp add: AuthService_new_unfold sample_config_def)
  have none: "scopes (configs ?w0 0) = None" by simp
  have nr: "next_ref ?w0 = 1" by (simp add: sample_world_def)
  have second: "config_scopes (config this) = 1
      \<and> arrays w1 1 = [''openid'', ''email'', ''profile'', ''govbr_confiabilidades'']
      \<and> fst (generateAuthorizationUrl toy_digest this no_params (array_push 0 ''admin'' w1))
          = fst (generateAuthorizationUrl toy_digest this no_params w1)"
    using configuration_resolved_at_construction [OF new' refl refl refl,
        of toy_digest no_params "\<lambda>r. Response 200 ()" "[]" "[]" "[]" "[]"] none nr
    by (auto simp: DEFAULT_SCOPES_def)
  show ?thesis
    using first second unfolding new' by simp
qed

section \<open>Empty scopes\<close>

text \<open>
  C10, as stated, fails in its last part: the empty array that the configuration carries
  is held by reference, so not every authorization URL has an empty \<open>scope\<close>. On the
  sample service, built from a configuration whose scopes array is empty, the URL
  generated after the caller has pushed \<open>admin\<close> on that array has \<open>scope=admin\<close>.
\<close>

theorem empty_scopes_every_result_counterexample:
  "AuthService_new 0 (sample_world\<lparr>arrays := (\<lambda>r. [])\<rparr>)
     = (Inr sample_service, sample_world\<lparr>arrays := (\<lambda>r. [])\<rparr>)
   \<and> scopes (configs (sample_world\<lparr>arrays := (\<lambda>r. [])\<rparr>) 0) = Some 0
   \<and> arrays (sample_world\<lparr>arrays := (\<lambda>r. [])\<rparr>) 0 = []
   \<and> map_of (parse_query (drop (Suc (length (authorize (endpoints sample_service))))
         (fst (generateAuthorizationUrl toy_digest sample_service no_params
                 (array_push 0 ''admin'' (sample_world\<lparr>arrays := (\<lambda>r. [])\<rparr>))))))
         ''scope''
       = Some ''admin''
   \<and> map_of (parse_query (drop (Suc (length (authorize (endpoints sample_service))))
         (fst (generateAuthorizationUrl toy_digest sample_service no_params
                 (array_push 0 ''admin'' (sample_world\<lparr>arrays := (\<lambda>r. [])\<rparr>))))))
         ''scope''
       \<noteq> Some []"
proof -
  let ?w = "sample_world\<lparr>arrays := (\<lambda>r. [])\<rparr>"
  have new: "AuthService_new 0 ?w = (Inr sample_service, ?w)"
    by (rule sample_construction) (simp add: sample_world_def)
  have sc: "scopes (configs ?w 0) = Some 0"
    by (simp add: sample_world_def sample_config_def)
  have pushed: "arrays (array_push 0 ''admin'' ?w) (config_scopes (config sample_service))
      = [''admin'']"
    by (simp add: array_push_def sample_service_fields)
  have "map_of (fst (authorizationQueryParams toy_digest sample_service no_params
                 (array_push 0 ''admin'' ?w))) ''scope'' = Some ''admin''"
    unfolding authorizationQueryParams_fst pushed by simp
  then have after: "map_of (parse_query (drop (Suc (length (authorize (endpoints sample_service))))
         (fst (generateAuthorizationUrl toy_digest sample_service no_params
                 (array_push 0 ''admin'' ?w))))) ''scope'' = Some ''admin''"
    by (simp only: generateAuthorizationUrl_query)
  have "arrays ?w 0 = []" by simp
  with new sc after show ?thesis by simp
qed

text \<open>
  C10, amended. When the configuration carries a scopes array and that array is empty,
  the constructor allocates nothing and the service holds that very array, not the four
  default scopes: the resolved configuration has an empty scope list. The \<open>scope\<close>
  parameter of an authorization URL is the contents of that array at the time of the
  call, joined by spaces: it is the empty string in the world right after construction
  and in every world where the array is still empty, and no operation of the service
  changes an array.
\<close>

theorem empty_scopes_not_defaulted:
  assumes "AuthService_new c w0 = (Inr this, w1)"
    and "scopes (configs w0 c) = Some r"
    and "arrays w0 r = []"
  shows "w1 = w0
       \<and> config_scopes (config this) = r
       \<and> arrays w1 (config_scopes (config this)) = []
       \<and> arrays w1 (config_scopes (config this)) \<noteq> DEFAULT_SCOPES
       \<and> map_of (parse_query (drop (Suc (length (authorize (endpoints this))))
                   (fst (generateAuthorizationUrl sha256 this params w1)))) ''scope''
           = Some []
       \<and> map_of (parse_query (drop (Suc (length (authorize (endpoints this))))
                   (fst (generateAuthorizationUrl sha256 this params w)))) ''scope''
           = Some (join '' '' (arrays w r))
       \<and> (arrays w r = [] \<longrightarrow>
            map_of (parse_query (drop (Suc (length (authorize (endpoints this))))
                   (fst (generateAuthorizationUrl sha256 this params w)))) ''scope''
              = Some [])
       \<and> arrays (snd (generateAuthorizationUrl sha256 this params w)) = arrays w
       \<and> arrays (snd (getTokens transport this code codeVerifier w)) = arrays w
       \<and> arrays (snd (getUserInfo transport this accessToken w)) = arrays w
       \<and> arrays (snd (getConfiabilidadeNiveis transport this accessToken cpf w)) = arrays w
       \<and> arrays (snd (getConfiabilidadeSelos transport this accessToken cpf w)) = arrays w"
proof -
  note facts = AuthService_new_InrD [OF assms(1)]
  have w1: "w1 = w0" using facts(11) assms(2) by simp
  have r: "config_scopes (config this) = r" using facts(8) assms(2) by simp
  have held: "arrays w1 (config_scopes (config this)) = []"
    using w1 r assms(3) by simp
  have scope: "map_of (parse_query (drop (Suc (length (authorize (endpoints this))))
                   (fst (generateAuthorizationUrl sha256 this params v)))) ''scope''
           = Some (join '' '' (arrays v r))" for v
  proof -
    have "map_of (fst (authorizationQueryParams sha256 this params v)) ''scope''
        = Some (join '' '' (arrays v r))"
      unfolding authorizationQueryParams_fst by (simp add: r)
    then show ?thesis by (simp only: generateAuthorizationUrl_query)
  qed
  have first: "map_of (parse_query (drop (Suc (length (authorize (endpoints this))))
                   (fst (generateAuthorizationUrl sha256 this params w1)))) ''scope''
           = Some []"
    using scope [of w1] held r by simp
  have still: "arrays w r = [] \<longrightarrow>
            map_of (parse_query (drop (Suc (length (authorize (endpoints this))))
                   (fst (generateAuthorizationUrl sha256 this params w)))) ''scope''
              = Some []"
    using scope [of w] by simp
  have url: "arrays (snd (generateAuthorizationUrl sha256 this params w)) = arrays w"
    by (simp add: generateAuthorizationUrl_snd authorizationQueryParams_snd)
  have tokens: "arrays (snd (getTokens transport this code codeVerifier w)) = arrays w"
    unfolding getTokens_unfold [OF facts(10)] by simp
  have info: "arrays (snd (getUserInfo transport this accessToken w)) = arrays w"
    unfolding getUserInfo_unfold [OF facts(10)] by simp
  have niveis: "arrays (snd (getConfiabilidadeNiveis transport this accessToken cpf w)) = arrays w"
    unfolding getConfiabilidadeNiveis_unfold [OF facts(10)] by simp
  have selos: "arrays (snd (getConfiabilidadeSelos transport this accessToken cpf w)) = arrays w"
    unfolding getConfiabilidadeSelos_unfold [OF facts(10)] by simp
  have "arrays w1 (config_scopes (config this)) \<noteq> DEFAULT_SCOPES"
    using held by (simp add: DEFAULT_SCOPES_def)
  with w1 r held first scope [of w] still url tokens info niveis selos
  show ?thesis by blast
qed

text \<open>
  On the sample service, with the caller's array empty: the URL reads \<open>scope=&\<close>, and so
  does the URL of a second call, made in the world that the first one left.
\<close>

theorem empty_scopes_not_defaulted_witness:
  "map_of (parse_query (drop (Suc (length (authorize (endpoints sample_service))))
       (fst (generateAuthorizationUrl toy_digest sample_service no_params
              (sample_world\<lparr>arrays := (\<lambda>r. [])\<rparr>))))) ''scope'' = Some []
   \<and> map_of (parse_query (drop (Suc (length (authorize (endpoints sample_service))))
       (fst (generateAuthorizationUrl toy_digest sample_service no_params
              (snd (generateAuthorizationUrl toy_digest sample_service no_params
                      (sample_world\<lparr>arrays := (\<lambda>r. [])\<rparr>))))))) ''scope'' = Some []
   \<and> fst (generateAuthorizationUrl toy_digest sample_service no_params
            (sample_world\<lparr>arrays := (\<lambda>r. [])\<rparr>))
       = ''https://sso.staging.acesso.gov.br/authorize?response_type=code&client_id=client-1&scope=&redirect_uri=https%3A%2F%2Fapp.test%2Fcallback&nonce=202122232425262728292a2b2c2d2e2f&state=303132333435363738393a3b3c3d3e3f&code_challenge=QQ&code_challenge_method=S256''"
proof -
  let ?w = "sample_world\<lparr>arrays := (\<lambda>r. [])\<rparr>"
  let ?w' = "snd (generateAuthorizationUrl toy_digest sample_service no_params ?w)"
  have new: "AuthService_new 0 ?w = (Inr sample_service, ?w)"
    by (rule sample_construction) (simp add: sample_world_def)
  have sc: "scopes (configs ?w 0) = Some 0"
    by (simp add: sample_world_def sample_config_def)
  have empty: "arrays ?w 0 = []" by simp
  note at_first = empty_scopes_not_defaulted [OF new sc empty,
      of toy_digest no_params ?w "\<lambda>r. Response 200 ()" "[]" "[]" "[]" "[]"]
  note at_second = empty_scopes_not_defaulted [OF new sc empty,
      of toy_digest no_params ?w' "\<lambda>r. Response 200 ()" "[]" "[]" "[]" "[]"]
  have one: "map_of (parse_query (drop (Suc (length (authorize (endpoints sample_service))))
       (fst (generateAuthorizationUrl toy_digest sample_service no_params ?w)))) ''scope''
      = Some []"
    using at_first by blast
  have kept: "arrays ?w' 0 = []"
    using at_first empty by simp
  have two: "map_of (parse_query (drop (Suc (length (authorize (endpoints sample_service))))
       (fst (generateAuthorizationUrl toy_digest sample_service no_params ?w')))) ''scope''
      = Some []"
    using at_second kept by blast
  have url: "fst (generateAuthorizationUrl toy_digest sample_service no_params ?w)
       = ''https://sso.staging.acesso.gov.br/authorize?response_type=code&client_id=client-1&scope=&redirect_uri=https%3A%2F%2Fapp.test%2Fcallback&nonce=202122232425262728292a2b2c2d2e2f&state=303132333435363738393a3b3c3d3e3f&code_challenge=QQ&code_challenge_method=S256''"
    by code_simp
  from one two url show ?thesis by (intro conjI)
qed

section \<open>Environments\<close>

text \<open>
  C9. A service built from a configuration whose environment is \<open>staging\<close> holds the
  staging endpoints, and in every world, whatever has happened since the construction
  (the world \<open>w\<close> below is any world at all), each operation uses them: the
  authorization URL, the token exchange, the user info, the trust levels, the trust
  seals and the logout URL.
\<close>

theorem staging_routes_every_operation:
  assumes "AuthService_new c w0 = (Inr this, w1)"
    and "environment (configs w0 c) = Some staging"
  shows "endpoints this = ENDPOINTS staging
       \<and> (\<exists>q. fst (generateAuthorizationUrl sha256 this params w)
                 = ''https://sso.staging.acesso.gov.br/authorize?'' @ q)
       \<and> req_url (last (requests (snd (getTokens transport this code codeVerifier w))))
           = ''https://sso.staging.acesso.gov.br/token''
       \<and> req_url (last (requests (snd (getUserInfo transport this accessToken w))))
           = ''https://sso.staging.acesso.gov.br/userinfo''
       \<and> req_url (last (requests
             (snd (getConfiabilidadeNiveis transport this accessToken cpf w))))
           = ''https://api.staging.acesso.gov.br/confiabilidades/v3/contas/'' @ cpf @ ''/niveis''
       \<and> req_url (last (requests
             (snd (getConfiabilidadeSelos transport this accessToken cpf w))))
           = ''https://api.staging.acesso.gov.br/confiabilidades/v3/contas/'' @ cpf
               @ ''/confiabilidades''
       \<and> (\<exists>q. generateLogoutUrl this uri = ''https://sso.staging.acesso.gov.br/logout?'' @ q)"
proof -
  note facts = AuthService_new_InrD [OF assms(1)]
  have ep: "endpoints this = ENDPOINTS staging"
    using facts(7,9) assms(2) by simp
  have "\<exists>q. fst (generateAuthorizationUrl sha256 this params w)
                 = ''https://sso.staging.acesso.gov.br/authorize?'' @ q"
    by (simp add: generateAuthorizationUrl_fst ep)
  moreover have "req_url (last (requests (snd (getTokens transport this code codeVerifier w))))
           = ''https://sso.staging.acesso.gov.br/token''"
    unfolding getTokens_unfold [OF facts(10)] by (simp add: ep)
  moreover have "req_url (last (requests (snd (getUserInfo transport this accessToken w))))
           = ''https://sso.staging.acesso.gov.br/userinfo''"
    unfolding getUserInfo_unfold [OF facts(10)] by (simp add: ep)
  moreover have "req_url (last (requests
             (snd (getConfiabilidadeNiveis transport this accessToken cpf w))))
           = ''https://api.staging.acesso.gov.br/confiabilidades/v3/contas/'' @ cpf @ ''/niveis''"
    unfolding getConfiabilidadeNiveis_unfold [OF facts(10)] by (simp add: ep)
  moreover have "req_url (last (requests
             (snd (getConfiabilidadeSelos transport this accessToken cpf w))))
           = ''https://api.staging.acesso.gov.br/confiabilidades/v3/contas/'' @ cpf
               @ ''/confiabilidades''"
    unfolding getConfiabilidadeSelos_unfold [OF facts(10)] by (simp add: ep)
  moreover have "\<exists>q. generateLogoutUrl this uri = ''https://sso.staging.acesso.gov.br/logout?'' @ q"
    by (simp add: generateLogoutUrl_def ep)
  ultimately show ?thesis using ep by blast
qed

text \<open>
  On the sample service, after the caller has set the environment of its configuration
  object to \<open>production\<close>.
\<close>

theorem staging_routes_every_operation_witness:
  "endpoints sample_service = ENDPOINTS staging
   \<and> (\<exists>q. fst (generateAuthorizationUrl toy_digest sample_service no_params
              (assign_config 0 (sample_config\<lparr>environment := Some production\<rparr>) sample_world))
            = ''https://sso.staging.acesso.gov.br/authorize?'' @ q)
   \<and> req_url (last (requests (snd (getTokens (\<lambda>r. Response 200 ()) sample_service ''abc''
        ''ver'' (assign_config 0 (sample_config\<lparr>environment := Some production\<rparr>) sample_world)))))
       = ''https://sso.staging.acesso.gov.br/token''
   \<and> generateLogoutUrl sample_service ''https://app.test/done''
       = ''https://sso.staging.acesso.gov.br/logout?post_logout_redirect_uri=https%3A%2F%2Fapp.test%2Fdone''"
proof -
  have new: "AuthService_new 0 sample_world = (Inr sample_service, sample_world)"
    by (rule sample_construction) (simp add: sample_world_def)
  have env: "environment (configs sample_world 0) = Some staging"
    by (simp add: sample_world_def sample_config_def)
  have out: "generateLogoutUrl sample_service ''https://app.test/done''
       = ''https://sso.staging.acesso.gov.br/logout?post_logout_redirect_uri=https%3A%2F%2Fapp.test%2Fdone''"
    by code_simp
  show ?thesis
    using staging_routes_every_operation [OF new env, of toy_digest no_params
        "assign_config 0 (sample_config\<lparr>environment := Some production\<rparr>) sample_world"
        "\<lambda>r. Response 200 ()" "''abc''" "''ver''" "''t''" "''1''" "''https://app.test/done''"]
      out
    by simp
qed

section \<open>The authorization URL\<close>

text \<open>
  C6, as stated, fails: a parameter that the caller provides as the empty string is not
  taken; \<open>||\<close> treats it as absent. On the sample service the call with
  \<open>{state: ''}\<close> returns a URL whose \<open>state\<close> is the generated one.
\<close>

theorem provided_value_verbatim_counterexample:
  "state (no_params\<lparr>state := Some []\<rparr>) = Some []
   \<and> map_of (parse_query (drop (Suc (length (authorize (endpoints sample_service))))
         (fst (generateAuthorizationUrl toy_digest sample_service
                 (no_params\<lparr>state := Some []\<rparr>) sample_world)))) ''state''
       = Some ''303132333435363738393a3b3c3d3e3f''
   \<and> map_of (parse_query (drop (Suc (length (authorize (endpoints sample_service))))
         (fst (generateAuthorizationUrl toy_digest sample_service
                 (no_params\<lparr>state := Some []\<rparr>) sample_world)))) ''state''
       \<noteq> Some []"
proof -
  have "map_of (fst (authorizationQueryParams toy_digest sample_service
                 (no_params\<lparr>state := Some []\<rparr>) sample_world)) ''state''
       = Some ''303132333435363738393a3b3c3d3e3f''"
    by code_simp
  then show ?thesis
    unfolding generateAuthorizationUrl_query by simp
qed

text \<open>
  C6, amended. The returned string is the authorize endpoint, \<open>?\<close> and a query string
  that parses to exactly eight entries, in this order: \<open>response_type\<close>,
  \<open>client_id\<close>, \<open>scope\<close> (the scopes of the service joined by spaces),
  \<open>redirect_uri\<close>, \<open>nonce\<close>, \<open>state\<close>, \<open>code_challenge\<close>,
  \<open>code_challenge_method\<close>. The client id, the scope and the redirect URI are the
  configuration's. Each of the other five is the caller's parameter when it is provided
  and not empty; when it is absent or empty it is \<open>code\<close> for the response type,
  \<open>S256\<close> for the challenge method, the hexadecimal of the next sixteen random bytes
  for the nonce and for the state, and the challenge of the generated verifier (the
  first thirty-two random bytes in URL-safe base64) for the code challenge.
\<close>

theorem authorization_url_entries:
  "fst (generateAuthorizationUrl sha256 this params w)
     = authorize (endpoints this) @ ''?'' @
         drop (Suc (length (authorize (endpoints this))))
           (fst (generateAuthorizationUrl sha256 this params w))
   \<and> parse_query (drop (Suc (length (authorize (endpoints this))))
                   (fst (generateAuthorizationUrl sha256 this params w))) =
       [(''response_type'',
           case responseType params of
             None \<Rightarrow> ''code'' | Some v \<Rightarrow> if v = [] then ''code'' else v),
        (''client_id'', config_clientId (config this)),
        (''scope'', join '' '' (arrays w (config_scopes (config this)))),
        (''redirect_uri'', config_redirectUri (config this)),
        (''nonce'',
           case nonce params of
             None \<Rightarrow> hex (map (entropy w) [consumed w + 32 ..< consumed w + 48])
           | Some v \<Rightarrow>
               if v = [] then hex (map (entropy w) [consumed w + 32 ..< consumed w + 48])
               else v),
        (''state'',
           case state params of
             None \<Rightarrow> hex (map (entropy w)
                      [consumed w + (if falsy (nonce params) then 48 else 32)
                         ..< consumed w + (if falsy (nonce params) then 48 else 32) + 16])
           | Some v \<Rightarrow>
               if v = []
               then hex (map (entropy w)
                      [consumed w + (if falsy (nonce params) then 48 else 32)
                         ..< consumed w + (if falsy (nonce params) then 48 else 32) + 16])
               else v),
        (''code_challenge'',
           case codeChallenge params of
             None \<Rightarrow> generateCodeChallenge sha256
                      (base64url (map (entropy w) [consumed w ..< consumed w + 32]))
           | Some v \<Rightarrow>
               if v = []
               then generateCodeChallenge sha256
                      (base64url (map (entropy w) [consumed w ..< consumed w + 32]))
               else v),
        (''code_challenge_method'',
           case codeChallengeMethod params of
             None \<Rightarrow> ''S256'' | Some v \<Rightarrow> if v = [] then ''S256'' else v)]"
proof -
  have "fst (generateAuthorizationUrl sha256 this params w)
     = authorize (endpoints this) @ ''?'' @
         drop (Suc (length (authorize (endpoints this))))
           (fst (generateAuthorizationUrl sha256 this params w))"
    by (simp add: generateAuthorizationUrl_fst)
  then show ?thesis
    unfolding generateAuthorizationUrl_query authorizationQueryParams_fst or_default_alt
    by (rule conjI) (rule refl)
qed

text \<open>
  On the sample service, the call with \<open>{state: 's1', nonce: 'n1'}\<close>: the query reads
  \<open>nonce=n1&state=s1\<close>.
\<close>

theorem authorization_url_entries_witness:
  "map (map_of (parse_query (drop (Suc (length (authorize (endpoints sample_service))))
          (fst (generateAuthorizationUrl toy_digest sample_service
                  (no_params\<lparr>nonce := Some ''n1'', state := Some ''s1''\<rparr>) sample_world)))))
     [''nonce'', ''state'', ''response_type'', ''code_challenge_method'', ''scope'']
     = [Some ''n1'', Some ''s1'', Some ''code'', Some ''S256'', Some ''openid'']
   \<and> fst (generateAuthorizationUrl toy_digest sample_service
              (no_params\<lparr>nonce := Some ''n1'', state := Some ''s1''\<rparr>) sample_world)
       = ''https://sso.staging.acesso.gov.br/authorize?response_type=code&client_id=client-1&scope=openid&redirect_uri=https%3A%2F%2Fapp.test%2Fcallback&nonce=n1&state=s1&code_challenge=QQ&code_challenge_method=S256''"
proof -
  let ?p = "no_params\<lparr>nonce := Some ''n1'', state := Some ''s1''\<rparr>"
  have url: "fst (generateAuthorizationUrl toy_digest sample_service ?p sample_world)
       = ''https://sso.staging.acesso.gov.br/authorize?response_type=code&client_id=client-1&scope=openid&redirect_uri=https%3A%2F%2Fapp.test%2Fcallback&nonce=n1&state=s1&code_challenge=QQ&code_challenge_method=S256''"
    by code_simp
  note entries = authorization_url_entries [of toy_digest sample_service ?p sample_world,
      THEN conjunct2]
  have "map (map_of (parse_query (drop (Suc (length (authorize (endpoints sample_service))))
          (fst (generateAuthorizationUrl toy_digest sample_service ?p sample_world)))))
     [''nonce'', ''state'', ''response_type'', ''code_challenge_method'', ''scope'']
     = [Some ''n1'', Some ''s1'', Some ''code'', Some ''S256'', Some ''openid'']"
    unfolding entries
    by (simp add: no_params_def sample_world_fields sample_service_fields)
  with url show ?thesis by (rule conjI [rotated])
qed

section \<open>The code verifier\<close>

lemma map_upt_cong:
  "(\<And>n. a \<le> n \<Longrightarrow> f n = g n) \<Longrightarrow> a \<le> i \<Longrightarrow> map f [i..<j] = map g [i..<j]"
  by simp

lemma generateCodeChallenge_digest:
  "sha256 v' = sha256 v \<Longrightarrow> generateCodeChallenge sha256 v' = generateCodeChallenge sha256 v"
  by (simp add: generateCodeChallenge_def)

text \<open>
  C3. When the caller supplies no code challenge, a call of
  \<open>generateAuthorizationUrl\<close> changes nothing in the world but the count of random
  bytes consumed: no array, no configuration object and no request holds the verifier,
  and the service is a value that the call cannot change. The \<open>code_challenge\<close> of the
  returned URL is the challenge of the generated verifier, and the URL depends on the
  verifier through its digest only: in a world \<open>w'\<close> whose entropy gives another verifier
  of the same digest, and is otherwise the same, the call returns the same URL. So the
  result tells the caller no more about the verifier than the challenge does.
\<close>

theorem code_verifier_not_exposed:
  assumes "falsy (codeChallenge params)"
    and "arrays w' = arrays w"
    and "consumed w' = consumed w"
    and "\<And>n. consumed w + 32 \<le> n \<Longrightarrow> entropy w' n = entropy w n"
    and "sha256 (fst (generateCodeVerifier w')) = sha256 (fst (generateCodeVerifier w))"
  shows "snd (generateAuthorizationUrl sha256 this params w)
           = w\<lparr>consumed := consumed w + 32 + (if falsy (nonce params) then 16 else 0)
                              + (if falsy (state params) then 16 else 0)\<rparr>
       \<and> map_of (parse_query (drop (Suc (length (authorize (endpoints this))))
                   (fst (generateAuthorizationUrl sha256 this params w)))) ''code_challenge''
           = Some (generateCodeChallenge sha256 (fst (generateCodeVerifier w)))
       \<and> fst (generateAuthorizationUrl sha256 this params w')
           = fst (generateAuthorizationUrl sha256 this params w)"
proof -
  have frame: "snd (generateAuthorizationUrl sha256 this params w)
           = w\<lparr>consumed := consumed w + 32 + (if falsy (nonce params) then 16 else 0)
                              + (if falsy (state params) then 16 else 0)\<rparr>"
    by (simp only: generateAuthorizationUrl_snd authorizationQueryParams_snd)
  have absent: "or_default (codeChallenge params) d = d" for d
    using assms(1) by (cases "codeChallenge params") simp_all
  have "map_of (fst (authorizationQueryParams sha256 this params w)) ''code_challenge''
      = Some (generateCodeChallenge sha256 (fst (generateCodeVerifier w)))"
    unfolding authorizationQueryParams_fst by (simp add: absent generateCodeVerifier_eq)
  then have challenge: "map_of (parse_query (drop (Suc (length (authorize (endpoints this))))
                   (fst (generateAuthorizationUrl sha256 this params w)))) ''code_challenge''
           = Some (generateCodeChallenge sha256 (fst (generateCodeVerifier w)))"
    by (simp only: generateAuthorizationUrl_query)
  have nonce_bytes: "map (entropy w') [consumed w + 32 ..< consumed w + 48]
      = map (entropy w) [consumed w + 32 ..< consumed w + 48]"
    by (rule map_upt_cong [of "consumed w + 32"]) (simp_all add: assms(4))
  have state_bytes: "map (entropy w') [consumed w + k ..< consumed w + k + 16]
      = map (entropy w) [consumed w + k ..< consumed w + k + 16]" if "32 \<le> k" for k
    by (rule map_upt_cong [of "consumed w + 32"]) (simp_all add: assms(4) that)
  have s48: "map (entropy w') [consumed w + 48 ..< consumed w + 48 + 16]
      = map (entropy w) [consumed w + 48 ..< consumed w + 48 + 16]"
    by (rule state_bytes) simp
  have s32: "map (entropy w') [consumed w + 32 ..< consumed w + 32 + 16]
      = map (entropy w) [consumed w + 32 ..< consumed w + 32 + 16]"
    by (rule state_bytes) simp
  have ch: "generateCodeChallenge sha256
              (base64url (map (entropy w') [consumed w ..< consumed w + 32]))
          = generateCodeChallenge sha256
              (base64url (map (entropy w) [consumed w ..< consumed w + 32]))"
    using assms(5) by (intro generateCodeChallenge_digest)
      (simp add: generateCodeVerifier_eq assms(3))
  have "fst (authorizationQueryParams sha256 this params w')
      = fst (authorizationQueryParams sha256 this params w)"
    unfolding authorizationQueryParams_fst assms(2,3) nonce_bytes ch
    by (cases "falsy (nonce params)") (simp_all only: if_True if_False s48 s32)
  then have same: "fst (generateAuthorizationUrl sha256 this params w')
           = fst (generateAuthorizationUrl sha256 this params w)"
    by (simp only: generateAuthorizationUrl_fst)
  show ?thesis using frame challenge same by blast
qed

text \<open>
  On the sample service: two entropies that differ in the last byte of the verifier give
  two verifiers, which \<open>toy_digest\<close> maps to one digest, and one URL.
\<close>

theorem code_verifier_not_exposed_witness:
  "fst (generateCodeVerifier (sample_world\<lparr>entropy := (\<lambda>n. if n = 31 then CHR ''x'' else char_of n)\<rparr>))
     \<noteq> fst (generateCodeVerifier sample_world)
   \<and> fst (generateAuthorizationUrl toy_digest sample_service no_params
            (sample_world\<lparr>entropy := (\<lambda>n. if n = 31 then CHR ''x'' else char_of n)\<rparr>))
     = fst (generateAuthorizationUrl toy_digest sample_service no_params sample_world)
   \<and> snd (generateAuthorizationUrl toy_digest sample_service no_params sample_world)
     = sample_world\<lparr>consumed := 64\<rparr>"
proof -
  let ?w' = "sample_world\<lparr>entropy := (\<lambda>n. if n = 31 then CHR ''x'' else char_of n)\<rparr>"
  have differ: "fst (generateCodeVerifier ?w') \<noteq> fst (generateCodeVerifier sample_world)"
    by code_simp
  have digest: "toy_digest (fst (generateCodeVerifier ?w'))
      = toy_digest (fst (generateCodeVerifier sample_world))"
    by code_simp
  have absent: "falsy (codeChallenge no_params)" by (simp add: no_params_def)
  have later: "\<And>n. consumed sample_world + 32 \<le> n \<Longrightarrow> entropy ?w' n = entropy sample_world n"
    by (simp add: sample_world_def)
  have none: "falsy (nonce no_params)" "falsy (state no_params)"
    by (simp_all add: no_params_def)
  show ?thesis
    using code_verifier_not_exposed [of no_params ?w' sample_world toy_digest sample_service,
        OF absent _ _ later digest] differ none
    by (simp add: sample_world_fields)
qed

section \<open>The code challenge\<close>

text \<open>
  C5. The code challenge is a function of the verifier alone (it takes no world, so two
  calls on one verifier give one result): it is the digest of the verifier in base64 with
  every \<open>+\<close> replaced by \<open>-\<close>, every \<open>/\<close> by \<open>_\<close> and every \<open>=\<close> removed, which
  is the unpadded URL-safe base64 of the digest, and it contains none of \<open>+\<close>,
  \<open>/\<close>, \<open>=\<close>.
\<close>

theorem generateCodeChallenge_urlsafe:
  "generateCodeChallenge sha256 verifier =
     filter (\<lambda>c. c \<noteq> CHR ''='')
       (map (\<lambda>c. if c = CHR ''/'' then CHR ''_'' else c)
         (map (\<lambda>c. if c = CHR ''+'' then CHR ''-'' else c) (base64 (sha256 verifier))))
   \<and> generateCodeChallenge sha256 verifier = base64url (sha256 verifier)
   \<and> CHR ''+'' \<notin> set (generateCodeChallenge sha256 verifier)
   \<and> CHR ''/'' \<notin> set (generateCodeChallenge sha256 verifier)
   \<and> CHR ''='' \<notin> set (generateCodeChallenge sha256 verifier)"
proof -
  have eq: "generateCodeChallenge sha256 verifier = base64url (sha256 verifier)"
    unfolding generateCodeChallenge_def by (simp only: base64_urlsafe)
  have spelled: "generateCodeChallenge sha256 verifier =
     filter (\<lambda>c. c \<noteq> CHR ''='')
       (map (\<lambda>c. if c = CHR ''/'' then CHR ''_'' else c)
         (map (\<lambda>c. if c = CHR ''+'' then CHR ''-'' else c) (base64 (sha256 verifier))))"
    unfolding generateCodeChallenge_def
    by (simp only: replace_all_single replace_all_empty)
  have safe: "CHR ''+'' \<notin> set (base64url (sha256 verifier))"
    "CHR ''/'' \<notin> set (base64url (sha256 verifier))"
    "CHR ''='' \<notin> set (base64url (sha256 verifier))"
    using set_base64url [of "sha256 verifier"] b64url_alphabet_safe by blast+
  show ?thesis
    using spelled safe unfolding eq by blast
qed

section \<open>The logout URL\<close>

text \<open>
  C8. \<open>generateLogoutUrl\<close> takes the service and the URI only, no world: it sends no
  request and draws no random byte. For every URI the result is the logout endpoint,
  \<open>?post_logout_redirect_uri=\<close> and the form-encoded URI, from which a parser
  reads the URI back; for \<open>https://app.test/done\<close> the encoded URI is
  \<open>https%3A%2F%2Fapp.test%2Fdone\<close>.
\<close>

theorem generateLogoutUrl_string:
  "generateLogoutUrl this uri
     = logout (endpoints this) @ ''?post_logout_redirect_uri='' @ urlencode uri
   \<and> parse_query (drop (Suc (length (logout (endpoints this)))) (generateLogoutUrl this uri))
     = [(''post_logout_redirect_uri'', uri)]
   \<and> generateLogoutUrl this ''https://app.test/done''
     = logout (endpoints this) @ ''?post_logout_redirect_uri=https%3A%2F%2Fapp.test%2Fdone''"
proof -
  have key: "urlencode ''post_logout_redirect_uri'' = ''post_logout_redirect_uri''"
    by code_simp
  have general: "generateLogoutUrl this u
     = logout (endpoints this) @ ''?post_logout_redirect_uri='' @ urlencode u" for u
    by (simp add: generateLogoutUrl_def URLSearchParams_toString_def key)
  have parsed: "parse_query (drop (Suc (length (logout (endpoints this))))
       (generateLogoutUrl this uri)) = [(''post_logout_redirect_uri'', uri)]"
    by (simp add: generateLogoutUrl_def parse_query_toString)
  have example: "urlencode ''https://app.test/done'' = ''https%3A%2F%2Fapp.test%2Fdone''"
    by code_simp
  show ?thesis
    using general [of uri] general [of "''https://app.test/done''"] parsed
    unfolding example by simp
qed

section \<open>The token exchange\<close>

text \<open>
  C4. For a service built by the constructor, \<open>getTokens\<close> adds exactly one request to
  those issued: a POST to the token endpoint of the service's environment, whose
  \<open>Authorization\<close> header is \<open>Basic\<close> and a value that decodes, once the URL-safe
  mapping is reversed and the padding restored, to the client id, a colon and the client
  secret of the configuration, both non-empty, and whose body is the form encoding of
  \<open>grant_type=authorization_code\<close>, the code, the redirect URI and the code verifier.
\<close>

theorem getTokens_request:
  assumes "AuthService_new c w0 = (Inr this, w1)"
  shows "\<exists>v body.
           requests (snd (getTokens transport this code codeVerifier w))
             = requests w @
               [\<lparr>req_method = POST,
                 req_url = token (ENDPOINTS (config_environment (config this))),
                 req_params = [],
                 req_headers = [(''Content-Type'', ''application/x-www-form-urlencoded''),
                                (''Authorization'', ''Basic '' @ v)],
                 req_data = Some body,
                 req_timeout = 10000\<rparr>]
         \<and> base64_decode (base64url_to_base64 v)
             = Some (config_clientId (config this) @ '':'' @ config_clientSecret (config this))
         \<and> clientId (configs w0 c) = Some (config_clientId (config this))
         \<and> clientSecret (configs w0 c) = Some (config_clientSecret (config this))
         \<and> config_clientId (config this) \<noteq> []
         \<and> config_clientSecret (config this) \<noteq> []
         \<and> parse_query body
             = [(''grant_type'', ''authorization_code''),
                (''code'', code),
                (''redirect_uri'', config_redirectUri (config this)),
                (''code_verifier'', codeVerifier)]"
proof -
  note facts = AuthService_new_InrD [OF assms]
  let ?v = "base64URLEncode
              (config_clientId (config this) @ '':'' @ config_clientSecret (config this))"
  let ?body = "URLSearchParams_toString
                 [(''grant_type'', ''authorization_code''),
                  (''code'', code),
                  (''redirect_uri'', config_redirectUri (config this)),
                  (''code_verifier'', codeVerifier)]"
  have sent: "requests (snd (getTokens transport this code codeVerifier w))
             = requests w @
               [\<lparr>req_method = POST,
                 req_url = token (ENDPOINTS (config_environment (config this))),
                 req_params = [],
                 req_headers = [(''Content-Type'', ''application/x-www-form-urlencoded''),
                                (''Authorization'', ''Basic '' @ ?v)],
                 req_data = Some ?body,
                 req_timeout = 10000\<rparr>]"
    unfolding getTokens_unfold [OF facts(10)] facts(9) by simp
  have "?v = base64url
              (config_clientId (config this) @ '':'' @ config_clientSecret (config this))"
    unfolding base64URLEncode_def by (simp only: base64_urlsafe)
  then have decoded: "base64_decode (base64url_to_base64 ?v)
      = Some (config_clientId (config this) @ '':'' @ config_clientSecret (config this))"
    by (simp only: base64url_restore base64_decode_base64)
  have parsed: "parse_query ?body
             = [(''grant_type'', ''authorization_code''),
                (''code'', code),
                (''redirect_uri'', config_redirectUri (config this)),
                (''code_verifier'', codeVerifier)]"
    by (rule parse_query_toString)
  show ?thesis
    using sent decoded parsed facts(1,2,4,5) by blast
qed

text \<open>
  On the sample service the header value is \<open>Y2xpZW50LTE6czNjcjN0\<close>, the URL-safe
  base64 of \<open>client-1:s3cr3t\<close>.
\<close>

theorem getTokens_request_witness:
  "(\<exists>v body.
      requests (snd (getTokens (\<lambda>r. Response 200 ()) sample_service ''abc'' ''ver''
                       sample_world))
        = [\<lparr>req_method = POST,
            req_url = ''https://sso.staging.acesso.gov.br/token'',
            req_params = [],
            req_headers = [(''Content-Type'', ''application/x-www-form-urlencoded''),
                           (''Authorization'', ''Basic '' @ v)],
            req_data = Some body,
            req_timeout = 10000\<rparr>]
      \<and> base64_decode (base64url_to_base64 v) = Some ''client-1:s3cr3t''
      \<and> parse_query body
          = [(''grant_type'', ''authorization_code''),
             (''code'', ''abc''),
             (''redirect_uri'', ''https://app.test/callback''),
             (''code_verifier'', ''ver'')])
   \<and> base64URLEncode ''client-1:s3cr3t'' = ''Y2xpZW50LTE6czNjcjN0''"
proof -
  have new: "AuthService_new 0 sample_world = (Inr sample_service, sample_world)"
    by (rule sample_construction) (simp add: sample_world_def)
  have enc: "base64URLEncode ''client-1:s3cr3t'' = ''Y2xpZW50LTE6czNjcjN0''"
    by code_simp
  show ?thesis
    using getTokens_request [OF new, of "\<lambda>r. Response 200 ()" "''abc''" "''ver''" sample_world]
      enc
    by (simp add: sample_service_fields sample_world_fields) blast
qed

section \<open>Error normalization\<close>

text \<open>
  C7. For a service built by the constructor, each of the four network operations returns
  what section 4.5 prescribes for the outcome of the request it sent (the last one
  recorded): the data of a 2xx response; for a response with any other status the error
  \<open>GovBRAuthError\<close> with the message, the code \<open>API_ERROR\<close>, that status and the
  original error; for a network failure the same without a status; and any exception
  that is not the HTTP library's unchanged.
\<close>

theorem network_operations_normalize_errors:
  assumes "AuthService_new c w0 = (Inr this, w1)"
  shows "fst (getTokens transport this code codeVerifier w)
           = normalized (transport (last (requests
               (snd (getTokens transport this code codeVerifier w)))))
       \<and> fst (getUserInfo transport this accessToken w)
           = normalized (transport (last (requests
               (snd (getUserInfo transport this accessToken w)))))
       \<and> fst (getConfiabilidadeNiveis transport this accessToken cpf w)
           = normalized (transport (last (requests
               (snd (getConfiabilidadeNiveis transport this accessToken cpf w)))))
       \<and> fst (getConfiabilidadeSelos transport this accessToken cpf w)
           = normalized (transport (last (requests
               (snd (getConfiabilidadeSelos transport this accessToken cpf w)))))"
proof -
  note cl = AuthService_new_InrD(10) [OF assms]
  have "fst (getTokens transport this code codeVerifier w)
           = normalized (transport (last (requests
               (snd (getTokens transport this code codeVerifier w)))))"
    unfolding getTokens_unfold [OF cl] by simp
  moreover have "fst (getUserInfo transport this accessToken w)
           = normalized (transport (last (requests
               (snd (getUserInfo transport this accessToken w)))))"
    unfolding getUserInfo_unfold [OF cl] by simp
  moreover have "fst (getConfiabilidadeNiveis transport this accessToken cpf w)
           = normalized (transport (last (requests
               (snd (getConfiabilidadeNiveis transport this accessToken cpf w)))))"
    unfolding getConfiabilidadeNiveis_unfold [OF cl] by simp
  moreover have "fst (getConfiabilidadeSelos transport this accessToken cpf w)
           = normalized (transport (last (requests
               (snd (getConfiabilidadeSelos transport this accessToken cpf w)))))"
    unfolding getConfiabilidadeSelos_unfold [OF cl] by simp
  ultimately show ?thesis by blast
qed

text \<open>
  On the sample service: a simulated 401 on the token exchange and a simulated 500 on the
  user info are rejected with \<open>API_ERROR\<close> and the simulated status, a network failure
  on the trust levels has no status, and a programming error raised during the trust
  seals request reaches the caller as it is.
\<close>

theorem network_operations_normalize_errors_witness:
  "fst (getTokens (\<lambda>r. Response 401 ()) sample_service ''code'' ''verifier'' sample_world)
     = Inl (GovBRAuthError ''Request failed with status code 401'' ''API_ERROR'' (Some 401)
              (Some (AxiosError ''Request failed with status code 401'' (Some 401))))
   \<and> fst (getUserInfo (\<lambda>r. Response 500 ()) sample_service ''token'' sample_world)
     = Inl (GovBRAuthError ''Request failed with status code 500'' ''API_ERROR'' (Some 500)
              (Some (AxiosError ''Request failed with status code 500'' (Some 500))))
   \<and> fst (getConfiabilidadeNiveis (\<lambda>r. NetworkError ''timeout of 10000ms exceeded'')
            sample_service ''token'' ''12345678909'' sample_world)
     = (Inl (GovBRAuthError ''timeout of 10000ms exceeded'' ''API_ERROR'' None
              (Some (AxiosError ''timeout of 10000ms exceeded'' None))) :: js_error + unit)
   \<and> fst (getConfiabilidadeSelos (\<lambda>r. Exception (Error ''x is not a function''))
            sample_service ''token'' ''12345678909'' sample_world)
     = (Inl (Error ''x is not a function'') :: js_error + unit)"
proof -
  have new: "AuthService_new 0 sample_world = (Inr sample_service, sample_world)"
    by (rule sample_construction) (simp add: sample_world_def)
  have d401: "digits 401 = ''401''" by code_simp
  have d500: "digits 500 = ''500''" by code_simp
  show ?thesis
    using network_operations_normalize_errors [OF new, of "\<lambda>r. Response 401 ()" "''code''"
        "''verifier''" sample_world "''token''" "''12345678909''"]
      network_operations_normalize_errors [OF new, of "\<lambda>r. Response 500 ()" "''code''"
        "''verifier''" sample_world "''token''" "''12345678909''"]
      network_operations_normalize_errors [OF new,
        of "\<lambda>r. (NetworkError ''timeout of 10000ms exceeded'' :: unit http_outcome)" "''code''"
        "''verifier''" sample_world "''token''" "''12345678909''"]
      network_operations_normalize_errors [OF new,
        of "\<lambda>r. (Exception (Error ''x is not a function'') :: unit http_outcome)" "''code''"
        "''verifier''" sample_world "''token''" "''12345678909''"]
    by (simp add: d401 d500 del: digits.simps)
qed

end
